theory Spec2Isabelle
  imports Complex_Main "HOL-Library.AList" "HOL-Library.Char_ord" "HOL-Library.List_Lexorder"
    "HOL-Library.Product_Lexorder"
begin

section \<open>Python values used by the accelerometer pipeline\<close>

text \<open>
  Every failure of the modelled code is a Python \<^verbatim>\<open>ValueError\<close>; the constructors keep
  the places apart: the constructor check on \<^verbatim>\<open>window_size\<close>, the two column checks
  and the empty result of \<^verbatim>\<open>transform\<close>, and \<^verbatim>\<open>range()\<close> called with step 0.
  The last two are Python's \<^verbatim>\<open>ZeroDivisionError\<close> of \<^verbatim>\<open>1.0 / self.sampling_rate\<close>
  and the \<^verbatim>\<open>IndexError\<close> of \<^verbatim>\<open>.iloc[0]\<close> on an empty window;
  \<open>FeatureCountMismatch\<close> is the \<^verbatim>\<open>ValueError\<close> that a fitted scikit-learn pipeline
  raises for a matrix with another number of columns than it was fitted on.
\<close>

datatype error =
    WindowSizeNotPositive
  | MissingSensorColumns "string list"
  | LabelColumnNotFound string
  | NoWindowsGenerated
  | RangeStepZero
  | ZeroDivisionError
  | IndexError
  | FeatureCountMismatch nat nat

text \<open>
  \<^verbatim>\<open>range(start, stop, step)\<close> with CPython's length formula; step 0 raises.
\<close>

definition py_range :: "int \<Rightarrow> int \<Rightarrow> int \<Rightarrow> error + int list" where
  "py_range start stop step =
     (if step = 0 then Inl RangeStepZero
      else
        let n = (if step > 0
                 then (if start \<ge> stop then 0 else (stop - start - 1) div step + 1)
                 else (if start \<le> stop then 0 else (start - stop - 1) div (- step) + 1))
        in Inr (map (\<lambda>i. start + int i * step) [0..<nat n]))"

text \<open>\<^verbatim>\<open>a or b\<close> on an optional integer: \<^verbatim>\<open>None\<close> and \<^verbatim>\<open>0\<close> are both falsy.\<close>

definition py_or :: "int option \<Rightarrow> int \<Rightarrow> int" where
  "py_or a b = (case a of None \<Rightarrow> b | Some v \<Rightarrow> (if v = 0 then b else v))"

section \<open>AccelerometerFeatureEngineer\<close>

record engineer =
  sampling_rate :: int
  window_size :: int
  step_size :: int
  label_col :: string

text \<open>\<^verbatim>\<open>__init__\<close>: the only check is on \<^verbatim>\<open>window_size\<close>; the hop is
  \<^verbatim>\<open>step_size or window_size // 2\<close>.\<close>

definition init :: "int \<Rightarrow> int \<Rightarrow> int option \<Rightarrow> string \<Rightarrow> error + engineer" where
  "init sr ws step lbl =
     (if ws \<le> 0 then Inl WindowSizeNotPositive
      else Inr \<lparr> sampling_rate = sr, window_size = ws,
                 step_size = py_or step (ws div 2), label_col = lbl \<rparr>)"

text \<open>
  A float64 as pandas and numpy hold it: a finite number, NaN or an infinity; and a cell of
  a feature row, which is a number or (for \<^verbatim>\<open>vehicle_id\<close>) a string.
\<close>

datatype fval = Fin real | NaN | PosInf | NegInf

datatype cell = Num fval | Str string

definition num :: "real \<Rightarrow> cell" where
  "num r = Num (Fin r)"

text \<open>A Python \<^verbatim>\<open>dict\<close> keyed by strings, in insertion order; \<^verbatim>\<open>d[k] = v\<close> is
  \<^const>\<open>AList.update\<close> and \<^verbatim>\<open>d.update(other)\<close> is \<open>dict_update\<close>.\<close>

type_synonym 'v pydict = "(string \<times> 'v) list"

definition dict_update :: "'v pydict \<Rightarrow> 'v pydict \<Rightarrow> 'v pydict" where
  "dict_update d other = fold (\<lambda>(k, v). AList.update k v) other d"

definition dict_of :: "'v pydict \<Rightarrow> 'v pydict" where
  "dict_of items = dict_update [] items"

text \<open>
  One raw reading of the input frame. The role columns are typed: the vehicle id is a
  string, the timestamp a float, the label an integer, every sensor column a finite number
  read by name through \<open>reading\<close>. A severity cell is a text, a finite number or missing.
  The model is \<^verbatim>\<open>transform\<close> called with \<^verbatim>\<open>metadata_cols=None\<close>, as \<^verbatim>\<open>fit\<close>
  and both scripts call it, so the metadata aggregates (lines 210-218) do not run.
\<close>

datatype sev = SevText string | SevNum real | SevMissing

record sample =
  vehicle_id :: string
  timestamp :: fval
  reading :: "string \<Rightarrow> real"
  label :: int
  severity :: sev

text \<open>The input frame: the names of its columns and its rows in file order.\<close>

record dataframe =
  columns :: "string list"
  samples :: "sample list"

text \<open>\<^verbatim>\<open>grp.iloc[start_idx:end_idx]\<close> for indices that are not negative.\<close>

definition iloc :: "int \<Rightarrow> int \<Rightarrow> 'a list \<Rightarrow> 'a list" where
  "iloc start_idx end_idx xs = take (nat end_idx - nat start_idx) (drop (nat start_idx) xs)"

text \<open>
  The body of the loop over one vehicle's group (lines 121-128 of \<^verbatim>\<open>transform\<close>):
  the \<^verbatim>\<open>continue\<close> for a short group, then one slice per start index.
\<close>

definition group_slices :: "engineer \<Rightarrow> 'a list \<Rightarrow> error + (int \<times> 'a list) list" where
  "group_slices eng grp =
     (let num_samples = int (length grp) in
      if num_samples < window_size eng then Inr []
      else case py_range 0 (num_samples - window_size eng + 1) (step_size eng) of
             Inl e \<Rightarrow> Inl e
           | Inr starts \<Rightarrow>
               Inr (map (\<lambda>start_idx. (start_idx,
                      iloc start_idx (start_idx + window_size eng) grp)) starts))"

text \<open>\<^verbatim>\<open>feature_row["window_index"] = start_idx // self.step_size\<close>\<close>

definition window_index :: "engineer \<Rightarrow> int \<Rightarrow> int" where
  "window_index eng start_idx = start_idx div step_size eng"

section \<open>Array helpers (numpy, pandas)\<close>

text \<open>\<^verbatim>\<open>np.mean\<close>: the arithmetic mean. The callers guard the empty array.\<close>

definition np_mean :: "real list \<Rightarrow> real" where
  "np_mean xs = sum_list xs / real (length xs)"

text \<open>\<^verbatim>\<open>np.signbit\<close> of a real number, and \<^verbatim>\<open>np.diff\<close> of a boolean array
  (\<^verbatim>\<open>a[i+1] != a[i]\<close>).\<close>

definition signbit :: "real \<Rightarrow> bool" where
  "signbit x = (x < 0)"

definition np_diff_bool :: "bool list \<Rightarrow> bool list" where
  "np_diff_bool bs = map (\<lambda>(a, b). b \<noteq> a) (zip bs (tl bs))"

text \<open>\<^verbatim>\<open>np.where(cond)[0]\<close>: the indices at which the condition holds.\<close>

definition np_where :: "bool list \<Rightarrow> nat list" where
  "np_where bs = filter (\<lambda>i. bs ! i) [0..<length bs]"

text \<open>
  \<^verbatim>\<open>_zero_crossing_rate\<close>. The sign test is not continuous in the mean, so the centre
  is not the exact mean but the float64 number that \<^verbatim>\<open>np.mean(series)\<close> returns: it is
  the parameter \<open>float_mean\<close>, about whose rounding nothing is assumed. For finite
  floats the sign bit of the rounded difference \<open>x - m\<close> is that of the exact one.
\<close>

definition zero_crossing_rate :: "(real list \<Rightarrow> real) \<Rightarrow> real list \<Rightarrow> real" where
  "zero_crossing_rate float_mean series =
     (if length series < 2 then 0
      else
        let centered = map (\<lambda>x. x - float_mean series) series;
            crossings = np_where (np_diff_bool (map signbit centered))
        in real (length crossings) / real (length series - 1))"

text \<open>
  The label fields of a window's row (lines 140-141 of \<^verbatim>\<open>transform\<close>):
  \<^verbatim>\<open>int(window[label].any())\<close> and \<^verbatim>\<open>window[label].mean()\<close>.
\<close>

definition window_label :: "int list \<Rightarrow> int" where
  "window_label labels = (if (\<exists>l \<in> set labels. l \<noteq> 0) then 1 else 0)"

definition positive_ratio :: "int list \<Rightarrow> real" where
  "positive_ratio labels = real_of_int (sum_list labels) / real (length labels)"

text \<open>\<^verbatim>\<open>np.std\<close> (population), \<^verbatim>\<open>np.max\<close>, \<^verbatim>\<open>np.min\<close>, \<^verbatim>\<open>np.ptp\<close>,
  \<^verbatim>\<open>np.diff\<close>, \<^verbatim>\<open>np.any\<close> and \<^verbatim>\<open>np.argmax\<close> (the first index of the maximum).
  Their callers guard the empty array.\<close>

definition central_moment :: "nat \<Rightarrow> real list \<Rightarrow> real" where
  "central_moment k xs = np_mean (map (\<lambda>x. (x - np_mean xs) ^ k) xs)"

definition np_std :: "real list \<Rightarrow> real" where
  "np_std xs = sqrt (central_moment 2 xs)"

definition np_max :: "real list \<Rightarrow> real" where
  "np_max xs = Max (set xs)"

definition np_min :: "real list \<Rightarrow> real" where
  "np_min xs = Min (set xs)"

definition np_ptp :: "real list \<Rightarrow> real" where
  "np_ptp xs = np_max xs - np_min xs"

definition np_diff :: "real list \<Rightarrow> real list" where
  "np_diff xs = map (\<lambda>(a, b). b - a) (zip xs (tl xs))"

definition np_any :: "real list \<Rightarrow> bool" where
  "np_any xs = (\<exists>x \<in> set xs. x \<noteq> 0)"

fun argmax_from :: "nat \<Rightarrow> real \<Rightarrow> nat \<Rightarrow> real list \<Rightarrow> nat" where
  "argmax_from best_i best_v i [] = best_i"
| "argmax_from best_i best_v i (x # xs) =
     (if best_v < x then argmax_from i x (Suc i) xs else argmax_from best_i best_v (Suc i) xs)"

definition np_argmax :: "real list \<Rightarrow> nat" where
  "np_argmax xs = (case xs of [] \<Rightarrow> 0 | x # rest \<Rightarrow> argmax_from 0 x 1 rest)"

text \<open>
  \<^verbatim>\<open>scipy.stats.skew\<close> and \<^verbatim>\<open>scipy.stats.kurtosis\<close> (defaults: biased, Fisher), as
  scipy 1.9 and later compute them: the ratio of central moments, and NaN where the
  second moment is within the float resolution of zero.
\<close>

definition resolution :: real where
  "resolution = 1 / 10 ^ 15"

definition skew :: "real list \<Rightarrow> fval" where
  "skew xs =
     (let m2 = central_moment 2 xs; m3 = central_moment 3 xs in
      if m2 \<le> (resolution * np_mean xs) ^ 2 then NaN else Fin (m3 / m2 powr (3 / 2)))"

definition kurtosis :: "real list \<Rightarrow> fval" where
  "kurtosis xs =
     (let m2 = central_moment 2 xs; m4 = central_moment 4 xs in
      if m2 \<le> (resolution * np_mean xs) ^ 2 then NaN else Fin (m4 / m2 ^ 2 - 3))"

text \<open>
  \<^verbatim>\<open>Series.corr\<close> (Pearson): \<^verbatim>\<open>np.corrcoef\<close> on the two columns, that is the
  covariance divided by both standard deviations and clipped to \<open>[-1, 1]\<close>; the division
  \<open>0 / 0\<close> of a column without variance gives NaN.
\<close>

definition covariance :: "real list \<Rightarrow> real list \<Rightarrow> real" where
  "covariance xs ys =
     sum_list (map (\<lambda>(x, y). (x - np_mean xs) * (y - np_mean ys)) (zip xs ys))
       / (real (length xs) - 1)"

definition series_corr :: "real list \<Rightarrow> real list \<Rightarrow> fval" where
  "series_corr xs ys =
     (if length xs < 2 then NaN
      else
        let c = covariance xs ys; dx = covariance xs xs; dy = covariance ys ys in
        if dx = 0 \<or> dy = 0 then NaN
        else Fin (max (- 1) (min 1 (c / sqrt dx / sqrt dy))))"

text \<open>
  \<^verbatim>\<open>np.abs(np.fft.rfft(series))\<close>: the moduli of the first \<open>n div 2 + 1\<close> bins of the
  discrete Fourier transform; \<^verbatim>\<open>np.fft.rfftfreq(n, d)\<close>: the bin frequencies.
\<close>

definition rfft_abs :: "real list \<Rightarrow> real list" where
  "rfft_abs series =
     (let n = length series in
      map (\<lambda>k. cmod (\<Sum>j<n. complex_of_real (series ! j)
                          * cis (- (2 * pi * real k * real j / real n))))
          [0..<n div 2 + 1])"

definition rfftfreq :: "nat \<Rightarrow> real \<Rightarrow> real list" where
  "rfftfreq n d = map (\<lambda>k. real k * (1 / (real n * d))) [0..<n div 2 + 1]"

section \<open>Feature helpers\<close>

text \<open>\<^verbatim>\<open>_series_statistics\<close> (and \<^verbatim>\<open>_axis_statistics\<close>, which only forwards to it).\<close>

definition series_statistics ::
  "(real list \<Rightarrow> real) \<Rightarrow> real list \<Rightarrow> string \<Rightarrow> cell pydict" where
  "series_statistics float_mean series prefix =
     (if length series = 0 then
        [(prefix @ ''_mean'', num 0), (prefix @ ''_std'', num 0), (prefix @ ''_max'', num 0),
         (prefix @ ''_min'', num 0), (prefix @ ''_range'', num 0), (prefix @ ''_ptp'', num 0),
         (prefix @ ''_energy'', num 0), (prefix @ ''_skew'', num 0),
         (prefix @ ''_kurtosis'', num 0), (prefix @ ''_zcr'', num 0)]
      else
        let stats = dict_of
              [(prefix @ ''_mean'', num (np_mean series)),
               (prefix @ ''_std'', num (np_std series)),
               (prefix @ ''_max'', num (np_max series)),
               (prefix @ ''_min'', num (np_min series))];
            stats = AList.update (prefix @ ''_range'')
                      (num (np_max series - np_min series)) stats;
            stats = AList.update (prefix @ ''_ptp'') (num (np_ptp series)) stats;
            stats = AList.update (prefix @ ''_energy'')
                      (num (sum_list (map (\<lambda>x. x ^ 2) series))) stats;
            stats = AList.update (prefix @ ''_skew'') (Num (skew series)) stats;
            stats = AList.update (prefix @ ''_kurtosis'') (Num (kurtosis series)) stats;
            stats = AList.update (prefix @ ''_zcr'') (num (zero_crossing_rate float_mean series)) stats
        in stats)"

definition axis_statistics ::
  "(real list \<Rightarrow> real) \<Rightarrow> real list \<Rightarrow> string \<Rightarrow> cell pydict" where
  "axis_statistics float_mean series prefix = series_statistics float_mean series prefix"

text \<open>\<^verbatim>\<open>_jerk_statistics\<close>\<close>

definition jerk_statistics :: "engineer \<Rightarrow> real list \<Rightarrow> string \<Rightarrow> cell pydict" where
  "jerk_statistics eng series prefix =
     (if length series < 2 then
        [(prefix @ ''_mean'', num 0), (prefix @ ''_std'', num 0), (prefix @ ''_max'', num 0)]
      else
        let jerk = map (\<lambda>d. d * real_of_int (sampling_rate eng)) (np_diff series) in
        dict_of
          [(prefix @ ''_mean'', num (np_mean jerk)),
           (prefix @ ''_std'', num (np_std jerk)),
           (prefix @ ''_max'', num (np_max (map abs jerk)))])"

text \<open>\<^verbatim>\<open>_fft_features\<close>. The step \<^verbatim>\<open>d=1.0 / self.sampling_rate\<close> divides a Python float
  by the integer and raises when the rate is 0.\<close>

definition fft_features :: "engineer \<Rightarrow> real list \<Rightarrow> string \<Rightarrow> error + cell pydict" where
  "fft_features eng series prefix =
     (if length series < 2 then
        Inr [(prefix @ ''_dominant_freq'', num 0), (prefix @ ''_dominant_power'', num 0),
             (prefix @ ''_spectral_energy'', num 0), (prefix @ ''_spectral_entropy'', num 0)]
      else if sampling_rate eng = 0 then Inl ZeroDivisionError
      else
        let spectrum = rfft_abs series;
            freqs = rfftfreq (length series) (1 / real_of_int (sampling_rate eng));
            spectrum = spectrum[0 := 0];
            dominant_idx = (if np_any spectrum then np_argmax spectrum else 0);
            spectral_energy = sum_list (map (\<lambda>s. s ^ 2) spectrum);
            power_distribution = map (\<lambda>s. s / (sum_list spectrum + 1 / 10 ^ 12)) spectrum;
            spectral_entropy =
              - sum_list (map (\<lambda>p. p * ln (p + 1 / 10 ^ 12)) power_distribution)
        in Inr (dict_of
             [(prefix @ ''_dominant_freq'', num (freqs ! dominant_idx)),
              (prefix @ ''_dominant_power'', num (spectrum ! dominant_idx)),
              (prefix @ ''_spectral_energy'', num spectral_energy),
              (prefix @ ''_spectral_entropy'', num spectral_entropy)]))"

text \<open>\<^verbatim>\<open>window[axis].values\<close> and \<^verbatim>\<open>_vector_magnitude(window[list(sensor_cols)].values)\<close>\<close>

definition axis_values :: "sample list \<Rightarrow> string \<Rightarrow> real list" where
  "axis_values window axis = map (\<lambda>s. reading s axis) window"

definition vector_magnitude :: "sample list \<Rightarrow> string list \<Rightarrow> real list" where
  "vector_magnitude window sensor_cols =
     map (\<lambda>s. sqrt (sum_list (map (\<lambda>axis. (reading s axis) ^ 2) sensor_cols))) window"

text \<open>\<^verbatim>\<open>_correlation_features\<close>: every pair \<open>(col_i, col_j)\<close> with \<open>i < j\<close>, in loop order;
  a NaN coefficient is stored as 0.0.\<close>

fun column_pairs :: "string list \<Rightarrow> (string \<times> string) list" where
  "column_pairs [] = []"
| "column_pairs (col_i # rest) = map (\<lambda>col_j. (col_i, col_j)) rest @ column_pairs rest"

definition corr_entry :: "sample list \<Rightarrow> string \<times> string \<Rightarrow> string \<times> cell" where
  "corr_entry window p =
     (case p of (col_i, col_j) \<Rightarrow>
        (''corr_'' @ col_i @ ''_'' @ col_j,
         (case series_corr (axis_values window col_i) (axis_values window col_j) of
            NaN \<Rightarrow> num 0
          | corr_value \<Rightarrow> Num corr_value)))"

definition correlation_features :: "sample list \<Rightarrow> string list \<Rightarrow> cell pydict" where
  "correlation_features window sensor_cols =
     dict_of (map (corr_entry window) (column_pairs sensor_cols))"

text \<open>A list of computations run in order; the first one that raises ends the run.\<close>

fun sequence_results :: "(error + 'a) list \<Rightarrow> error + 'a list" where
  "sequence_results [] = Inr []"
| "sequence_results (x # xs) =
     (case x of
        Inl e \<Rightarrow> Inl e
      | Inr v \<Rightarrow> (case sequence_results xs of Inl e \<Rightarrow> Inl e | Inr vs \<Rightarrow> Inr (v # vs)))"

text \<open>
  The severity aggregates of \<^verbatim>\<open>_compute_window_features\<close> (lines 220-229). A column
  that holds a text has dtype object and is mapped through the ordinal scale, anything
  unmapped or missing becoming 0; a numeric column only has its missing cells filled.
\<close>

definition severity_mapping :: "string \<Rightarrow> real option" where
  "severity_mapping t =
     (if t = ''Low'' then Some 0 else if t = ''Medium'' then Some 1
      else if t = ''High'' then Some 2 else if t = ''Critical'' then Some 3 else None)"

definition dtype_object :: "dataframe \<Rightarrow> bool" where
  "dtype_object df = (\<exists>s \<in> set (samples df). case severity s of SevText t \<Rightarrow> True | _ \<Rightarrow> False)"

definition severity_numeric :: "bool \<Rightarrow> sev \<Rightarrow> real" where
  "severity_numeric is_object v =
     (if is_object
      then (case v of
              SevText t \<Rightarrow> (case severity_mapping t of Some r \<Rightarrow> r | None \<Rightarrow> 0)
            | _ \<Rightarrow> 0)
      else (case v of SevNum r \<Rightarrow> r | _ \<Rightarrow> 0))"

definition severity_features ::
  "dataframe \<Rightarrow> sample list \<Rightarrow> string option \<Rightarrow> cell pydict \<Rightarrow> cell pydict" where
  "severity_features working_df window severity_col features =
     (case severity_col of
        None \<Rightarrow> features
      | Some col \<Rightarrow>
          if col \<noteq> [] \<and> col \<in> set (columns working_df) then
            let severity_numeric =
                  map (\<lambda>s. severity_numeric (dtype_object working_df) (severity s)) window;
                features = AList.update ''severity_max'' (num (np_max severity_numeric)) features;
                features = AList.update ''severity_mean'' (num (np_mean severity_numeric)) features
            in features
          else features)"

text \<open>\<^verbatim>\<open>_compute_window_features\<close>. The three dictionaries keyed by axis are built
  first and then merged into \<open>features\<close>, as in the source.\<close>

definition compute_window_features ::
  "(real list \<Rightarrow> real) \<Rightarrow> engineer \<Rightarrow> dataframe \<Rightarrow> sample list \<Rightarrow> string list \<Rightarrow> string option
     \<Rightarrow> error + cell pydict" where
  "compute_window_features float_mean eng working_df window sensor_cols severity_col =
     (let features = [];
          axis_stats = dict_of (map (\<lambda>axis.
              (axis, axis_statistics float_mean (axis_values window axis) axis)) sensor_cols);
          features = fold (\<lambda>axis_dict f. dict_update f axis_dict) (map snd axis_stats) features;
          magnitude = vector_magnitude window sensor_cols;
          features = dict_update features (series_statistics float_mean magnitude ''magnitude'');
          jerk_axes = dict_of (map (\<lambda>axis.
              (axis, jerk_statistics eng (axis_values window axis) (axis @ ''_jerk''))) sensor_cols);
          jerk_axes = AList.update ''magnitude''
              (jerk_statistics eng magnitude ''magnitude_jerk'') jerk_axes;
          features = fold (\<lambda>jerk_dict f. dict_update f jerk_dict) (map snd jerk_axes) features;
          features = dict_update features (correlation_features window sensor_cols)
      in
      case sequence_results (map (\<lambda>axis.
              map_sum id (Pair axis)
                (fft_features eng (axis_values window axis) (axis @ ''_fft''))) sensor_cols) of
        Inl e \<Rightarrow> Inl e
      | Inr axis_fft \<Rightarrow>
          (case fft_features eng magnitude ''magnitude_fft'' of
             Inl e \<Rightarrow> Inl e
           | Inr magnitude_fft \<Rightarrow>
               let fft_dicts = AList.update ''magnitude_fft'' magnitude_fft (dict_of axis_fft);
                   features = fold (\<lambda>fft_dict f. dict_update f fft_dict)
                                (map snd fft_dicts) features;
                   features = severity_features working_df window severity_col features;
                   features = AList.update ''samples_in_window''
                                (num (real (length window))) features
               in Inr features))"

section \<open>transform\<close>

text \<open>The engineered table: \<^verbatim>\<open>pd.DataFrame(windows)\<close> has the union of the rows' keys
  as columns, in order of first appearance, and NaN where a row lacks a key.\<close>

record frame =
  cols :: "string list"
  rows :: "cell pydict list"

definition key_union :: "cell pydict list \<Rightarrow> string list" where
  "key_union windows =
     fold (\<lambda>w acc. acc @ filter (\<lambda>k. k \<notin> set acc) (remdups (map fst w))) windows []"

definition cell_at :: "cell pydict \<Rightarrow> string \<Rightarrow> cell" where
  "cell_at row col = (case map_of row col of Some v \<Rightarrow> v | None \<Rightarrow> Num NaN)"

definition pd_DataFrame :: "cell pydict list \<Rightarrow> frame" where
  "pd_DataFrame windows =
     (let columns = key_union windows in
      \<lparr> cols = columns,
        rows = map (\<lambda>w. map (\<lambda>col. (col, cell_at w col)) columns) windows \<rparr>)"

text \<open>\<^verbatim>\<open>.replace([np.inf, -np.inf], np.nan)\<close> and \<^verbatim>\<open>.fillna(0.0)\<close> on one cell, and the
  assignment of a transformed block of columns back into the frame.\<close>

definition replace_inf :: "cell \<Rightarrow> cell" where
  "replace_inf c = (case c of Num PosInf \<Rightarrow> Num NaN | Num NegInf \<Rightarrow> Num NaN | _ \<Rightarrow> c)"

definition fillna_zero :: "cell \<Rightarrow> cell" where
  "fillna_zero c = (case c of Num NaN \<Rightarrow> Num (Fin 0) | _ \<Rightarrow> c)"

definition assign_columns :: "string list \<Rightarrow> (cell \<Rightarrow> cell) \<Rightarrow> frame \<Rightarrow> frame" where
  "assign_columns names f df =
     df \<lparr> rows := map (map (\<lambda>(col, v). (col, if col \<in> set names then f v else v))) (rows df) \<rparr>"

definition transform_non_feature_cols :: "string set" where
  "transform_non_feature_cols =
     {''label'', ''vehicle_id'', ''window_index'', ''window_start_ts'', ''window_end_ts'',
      ''positive_ratio''}"

text \<open>Lines 145-166 of \<^verbatim>\<open>transform\<close>: the empty-result check and the clean-up.\<close>

definition finalise :: "cell pydict list \<Rightarrow> error + frame" where
  "finalise windows =
     (if windows = [] then Inl NoWindowsGenerated
      else
        let features_df = pd_DataFrame windows;
            feature_cols = filter (\<lambda>col. col \<notin> transform_non_feature_cols) (cols features_df);
            features_df = assign_columns feature_cols replace_inf features_df;
            features_df = assign_columns feature_cols fillna_zero features_df
        in Inr features_df)"

text \<open>Lines 129-143: the row of one window.\<close>

definition window_row ::
  "(real list \<Rightarrow> real) \<Rightarrow> engineer \<Rightarrow> dataframe \<Rightarrow> string list \<Rightarrow> string option \<Rightarrow> string
     \<Rightarrow> int \<times> sample list \<Rightarrow> error + cell pydict" where
  "window_row float_mean eng working_df sensor_cols severity_col vehicle sl =
     (case sl of (start_idx, window) \<Rightarrow>
        (case compute_window_features float_mean eng working_df window sensor_cols severity_col of
           Inl e \<Rightarrow> Inl e
         | Inr feature_row \<Rightarrow>
             (case window of
                [] \<Rightarrow> Inl IndexError
              | _ \<Rightarrow>
                let feature_row = AList.update ''vehicle_id'' (Str vehicle) feature_row;
                    feature_row = AList.update ''window_index''
                        (num (real_of_int (window_index eng start_idx))) feature_row;
                    feature_row = AList.update ''window_start_ts''
                        (Num (timestamp (hd window))) feature_row;
                    feature_row = AList.update ''window_end_ts''
                        (Num (timestamp (last window))) feature_row;
                    feature_row = AList.update ''label''
                        (num (real_of_int (window_label (map label window)))) feature_row;
                    feature_row = AList.update ''positive_ratio''
                        (num (positive_ratio (map label window))) feature_row
                in Inr feature_row)))"

text \<open>Lines 120-143: the loop over the vehicles' groups.\<close>

definition group_rows ::
  "(real list \<Rightarrow> real) \<Rightarrow> engineer \<Rightarrow> dataframe \<Rightarrow> string list \<Rightarrow> string option \<Rightarrow> string \<times> sample list
     \<Rightarrow> error + cell pydict list" where
  "group_rows float_mean eng working_df sensor_cols severity_col g =
     (case g of (vehicle, grp) \<Rightarrow>
        (case group_slices eng grp of
           Inl e \<Rightarrow> Inl e
         | Inr slices \<Rightarrow>
             sequence_results
               (map (window_row float_mean eng working_df sensor_cols severity_col vehicle) slices)))"

definition collect_windows ::
  "(real list \<Rightarrow> real) \<Rightarrow> engineer \<Rightarrow> dataframe \<Rightarrow> string list \<Rightarrow> string option \<Rightarrow> (string \<times> sample list) list
     \<Rightarrow> error + cell pydict list" where
  "collect_windows float_mean eng working_df sensor_cols severity_col groups =
     (case sequence_results (map (group_rows float_mean eng working_df sensor_cols severity_col) groups) of
        Inl e \<Rightarrow> Inl e
      | Inr per_group \<Rightarrow> Inr (concat per_group))"

text \<open>
  \<^verbatim>\<open>sort_values([vehicle_id_col, timestamp_col])\<close> orders the rows by vehicle and then by
  time, NaN last; \<^verbatim>\<open>groupby(vehicle_id_col)\<close> yields one group per vehicle, in key order.
  A missing timestamp column is synthesised as \<^verbatim>\<open>np.arange(len(df)) / float(rate)\<close>
  (numpy's division: \<open>0 / 0\<close> is NaN and \<open>i / 0\<close> is infinite), a missing vehicle column
  as the constant \<^verbatim>\<open>"vehicle_0"\<close>.
\<close>

definition timestamp_key :: "fval \<Rightarrow> nat \<times> real" where
  "timestamp_key t =
     (case t of NegInf \<Rightarrow> (0, 0) | Fin r \<Rightarrow> (1, r) | PosInf \<Rightarrow> (2, 0) | NaN \<Rightarrow> (3, 0))"

definition synthetic_timestamp :: "engineer \<Rightarrow> nat \<Rightarrow> fval" where
  "synthetic_timestamp eng i =
     (if sampling_rate eng = 0 then (if i = 0 then NaN else PosInf)
      else Fin (real i / real_of_int (sampling_rate eng)))"

definition sort_values :: "sample list \<Rightarrow> sample list" where
  "sort_values xs = sort_key (\<lambda>s. (vehicle_id s, timestamp_key (timestamp s))) xs"

definition groupby :: "sample list \<Rightarrow> (string \<times> sample list) list" where
  "groupby xs =
     map (\<lambda>v. (v, filter (\<lambda>s. vehicle_id s = v) xs)) (sort (remdups (map vehicle_id xs)))"

text \<open>Lines 105-115 of \<^verbatim>\<open>transform\<close>: the working copy, completed and sorted.\<close>

definition working_frame :: "engineer \<Rightarrow> dataframe \<Rightarrow> string \<Rightarrow> string \<Rightarrow> dataframe" where
  "working_frame eng df timestamp_col vehicle_id_col =
     (let working_df = df;
          working_df =
            (if timestamp_col \<notin> set (columns working_df)
             then working_df \<lparr> columns := columns working_df @ [timestamp_col],
                    samples := map (\<lambda>(i, s). s \<lparr> timestamp := synthetic_timestamp eng i \<rparr>)
                                 (enumerate 0 (samples working_df)) \<rparr>
             else working_df);
          working_df =
            (if vehicle_id_col \<notin> set (columns working_df)
             then working_df \<lparr> columns := columns working_df @ [vehicle_id_col],
                    samples := map (\<lambda>s. s \<lparr> vehicle_id := ''vehicle_0'' \<rparr>)
                                 (samples working_df) \<rparr>
             else working_df);
          working_df = working_df \<lparr> samples := sort_values (samples working_df) \<rparr>
      in working_df)"

definition transform ::
  "(real list \<Rightarrow> real) \<Rightarrow> engineer \<Rightarrow> dataframe \<Rightarrow> string list \<Rightarrow> string \<Rightarrow> string \<Rightarrow> string option
     \<Rightarrow> error + frame" where
  "transform float_mean eng df sensor_cols timestamp_col vehicle_id_col severity_col =
     (let missing_cols = filter (\<lambda>c. c \<notin> set (columns df)) sensor_cols in
      if missing_cols \<noteq> [] then Inl (MissingSensorColumns missing_cols)
      else if label_col eng \<notin> set (columns df) then Inl (LabelColumnNotFound (label_col eng))
      else
        let working_df = working_frame eng df timestamp_col vehicle_id_col in
        case collect_windows float_mean eng working_df sensor_cols severity_col
               (groupby (samples working_df)) of
          Inl e \<Rightarrow> Inl e
        | Inr windows \<Rightarrow> finalise windows)"

text \<open>For the statements about the cleaned table: a cell that is NaN or infinite.\<close>

definition nan_or_inf :: "cell \<Rightarrow> bool" where
  "nan_or_inf c = (c = Num NaN \<or> c = Num PosInf \<or> c = Num NegInf)"

section \<open>AccelerometerAccidentDetector\<close>

text \<open>
  \<^verbatim>\<open>_optimise_threshold\<close>, from the three arrays that
  \<^verbatim>\<open>precision_recall_curve(y_true, y_proba)\<close> returns. The arrays are parameters:
  scikit-learn documents that \<open>precision\<close> and \<open>recall\<close> have one element more than
  \<open>thresholds\<close>, that the thresholds increase, that the recall values decrease and
  that the last precision and recall are 1 and 0.
\<close>

record threshold_info =
  optimal_threshold :: real
  optimal_precision :: real
  optimal_recall :: real
  recall_threshold :: real
  recall_precision :: real
  recall_recall :: real

definition default_target_recall :: real where
  "default_target_recall = 9 / 10"

definition f1_scores :: "real list \<Rightarrow> real list \<Rightarrow> real list" where
  "f1_scores precision recall =
     map (\<lambda>(p, r). 2 * (p * r) / (p + r + 1 / 10 ^ 12)) (zip precision recall)"

definition threshold_candidates :: "real list \<Rightarrow> real list" where
  "threshold_candidates thresholds = [0] @ thresholds"

definition optimise_threshold ::
  "real \<Rightarrow> real list \<Rightarrow> real list \<Rightarrow> real list \<Rightarrow> threshold_info" where
  "optimise_threshold target_recall precision recall thresholds =
     (let f1 = f1_scores precision recall;
          candidates = threshold_candidates thresholds;
          best_idx = np_argmax f1;
          optimal = candidates ! (min best_idx (length candidates - 1));
          target_idx = np_where (map (\<lambda>r. r \<ge> target_recall) recall)
      in
      if target_idx \<noteq> [] then
        let idx = target_idx ! 0 in
        \<lparr> optimal_threshold = optimal,
          optimal_precision = precision ! best_idx,
          optimal_recall = recall ! best_idx,
          recall_threshold = candidates ! (min idx (length candidates - 1)),
          recall_precision = precision ! idx,
          recall_recall = recall ! idx \<rparr>
      else
        \<lparr> optimal_threshold = optimal,
          optimal_precision = precision ! best_idx,
          optimal_recall = recall ! best_idx,
          recall_threshold = optimal,
          recall_precision = precision ! best_idx,
          recall_recall = recall ! best_idx \<rparr>)"

text \<open>
  The column selection of \<^verbatim>\<open>fit\<close> (lines 126-135) and what it records (lines 162-167).
  The split and the boosted trees are outside the model: the fitted classifier is a
  parameter, and of the pipeline only the number of columns it was fitted on is kept,
  which is all that scikit-learn compares at prediction time.
\<close>

definition fit_non_feature_cols :: "string set" where
  "fit_non_feature_cols =
     {''label'', ''vehicle_id'', ''window_index'', ''window_start_ts'', ''window_end_ts''}"

definition fit_feature_cols :: "frame \<Rightarrow> string list" where
  "fit_feature_cols features_df =
     filter (\<lambda>col. col \<notin> fit_non_feature_cols) (cols features_df)"

text \<open>\<^verbatim>\<open>features_df[feature_cols].values\<close>: the matrix with its number of columns.\<close>

record matrix =
  n_columns :: nat
  cells :: "cell list list"

definition values_of :: "frame \<Rightarrow> string list \<Rightarrow> matrix" where
  "values_of features_df feature_cols =
     \<lparr> n_columns = length feature_cols,
       cells = map (\<lambda>row. map (cell_at row) feature_cols) (rows features_df) \<rparr>"

record pipeline =
  n_features_in :: nat
  fitted_proba :: "cell list list \<Rightarrow> real list"

record training_artifacts =
  pipeline :: pipeline
  feature_columns :: "string list"
  metrics :: threshold_info
  threshold :: real

definition fit_artifacts ::
  "frame \<Rightarrow> (cell list list \<Rightarrow> real list) \<Rightarrow> threshold_info \<Rightarrow> training_artifacts" where
  "fit_artifacts features_df fitted info =
     (let feature_cols = fit_feature_cols features_df;
          X = values_of features_df feature_cols;
          pipe = \<lparr> n_features_in = n_columns X, fitted_proba = fitted \<rparr>
      in \<lparr> pipeline = pipe, feature_columns = feature_cols, metrics = info,
           threshold = optimal_threshold info \<rparr>)"

text \<open>\<^verbatim>\<open>pipeline.predict_proba(X)[:, 1]\<close> with scikit-learn's check of the column count.\<close>

definition predict_proba :: "pipeline \<Rightarrow> matrix \<Rightarrow> error + real list" where
  "predict_proba pipe X =
     (if n_columns X \<noteq> n_features_in pipe
      then Inl (FeatureCountMismatch (n_columns X) (n_features_in pipe))
      else Inr (fitted_proba pipe (cells X)))"

text \<open>\<^verbatim>\<open>scripts/predict_accidents.py\<close>, \<^verbatim>\<open>main\<close>, lines 179-195: from the engineered
  table to the predictions.\<close>

definition predict_non_feature_cols :: "string set" where
  "predict_non_feature_cols =
     {''label'', ''vehicle_id'', ''window_index'', ''window_start_ts'', ''window_end_ts'',
      ''positive_ratio''}"

definition predict_feature_cols :: "frame \<Rightarrow> string list" where
  "predict_feature_cols features_df =
     filter (\<lambda>col. col \<notin> predict_non_feature_cols) (cols features_df)"

definition predict_main :: "pipeline \<Rightarrow> real \<Rightarrow> frame \<Rightarrow> error + int list" where
  "predict_main pipe thr features_df =
     (let feature_cols = predict_feature_cols features_df;
          X = values_of features_df feature_cols
      in case predict_proba pipe X of
           Inl e \<Rightarrow> Inl e
         | Inr probabilities \<Rightarrow> Inr (map (\<lambda>p. if p \<ge> thr then 1 else 0) probabilities))"

section \<open>Windowing\<close>

lemma py_range_pos:
  assumes "0 < step" "0 < stop"
  shows "py_range 0 stop step = Inr (map (\<lambda>i. int i * step) [0..<nat ((stop - 1) div step + 1)])"
  using assms by (simp add: py_range_def)

lemma group_slices_long:
  assumes W: "0 < window_size eng" and S: "0 < step_size eng"
    and L: "window_size eng \<le> int (length grp)"
  shows "group_slices eng grp =
     Inr (map (\<lambda>k. (int k * step_size eng,
                     iloc (int k * step_size eng) (int k * step_size eng + window_size eng) grp))
            [0..<nat ((int (length grp) - window_size eng) div step_size eng) + 1])"
proof -
  let ?stop = "int (length grp) - window_size eng + 1"
  have stop: "0 < ?stop" using L by simp
  have n: "nat ((?stop - 1) div step_size eng + 1)
           = nat ((int (length grp) - window_size eng) div step_size eng) + 1"
    using L S by (simp add: nat_add_distrib pos_imp_zdiv_nonneg_iff)
  show ?thesis
    using L py_range_pos [OF S stop] n
    by (simp add: group_slices_def Let_def comp_def)
qed

lemma iloc_length:
  assumes "0 \<le> a" "0 \<le> w" "a + w \<le> int (length xs)"
  shows "length (iloc a (a + w) xs) = nat w"
  using assms by (simp add: iloc_def nat_add_distrib)

lemma group_slices_windows:
  assumes "0 < window_size eng" and "0 < step_size eng"
    and L: "window_size eng \<le> int (length grp)"
  shows "\<exists>ws. group_slices eng grp = Inr ws \<and>
              length ws = nat ((int (length grp) - window_size eng) div step_size eng) + 1 \<and>
              (\<forall>k < length ws.
                 fst (ws ! k) = int k * step_size eng \<and>
                 window_index eng (fst (ws ! k)) = int k \<and>
                 snd (ws ! k) = take (nat (window_size eng)) (drop (k * nat (step_size eng)) grp) \<and>
                 length (snd (ws ! k)) = nat (window_size eng))"
proof -
  let ?W = "window_size eng" and ?S = "step_size eng"
  let ?n = "nat ((int (length grp) - ?W) div ?S) + 1"
  define ws where
    "ws = map (\<lambda>k. (int k * ?S, iloc (int k * ?S) (int k * ?S + ?W) grp)) [0..<?n]"
  have eq: "group_slices eng grp = Inr ws"
    unfolding ws_def using group_slices_long [OF assms] .
  have len: "length ws = ?n"
    by (simp add: ws_def)
  have each: "fst (ws ! k) = int k * ?S \<and>
              window_index eng (fst (ws ! k)) = int k \<and>
              snd (ws ! k) = take (nat ?W) (drop (k * nat ?S) grp) \<and>
              length (snd (ws ! k)) = nat ?W" if k: "k < length ws" for k
  proof -
    have kn: "k < ?n" using k len by simp
    have nn: "0 \<le> (int (length grp) - ?W) div ?S"
      using L assms(2) by (simp add: pos_imp_zdiv_nonneg_iff)
    have "int k \<le> (int (length grp) - ?W) div ?S" using kn nn by linarith
    then have "int k * ?S \<le> ((int (length grp) - ?W) div ?S) * ?S"
      using assms(2) by (simp add: mult_right_mono)
    also have "\<dots> \<le> int (length grp) - ?W"
      using assms(2) by (simp add: minus_mod_eq_div_mult [symmetric])
    finally have bound: "int k * ?S + ?W \<le> int (length grp)" by simp
    have nth: "ws ! k = (int k * ?S, iloc (int k * ?S) (int k * ?S + ?W) grp)"
      unfolding ws_def using kn by (simp del: upt_Suc)
    have natk: "nat (int k * ?S) = k * nat ?S"
      using assms(2) by (simp add: nat_mult_distrib)
    have sl: "iloc (int k * ?S) (int k * ?S + ?W) grp = take (nat ?W) (drop (k * nat ?S) grp)"
      using assms natk by (simp add: iloc_def nat_add_distrib)
    have ln: "length (iloc (int k * ?S) (int k * ?S + ?W) grp) = nat ?W"
      using iloc_length [of "int k * ?S" ?W grp] assms bound by simp
    have wi: "window_index eng (int k * ?S) = int k"
      using assms(2) by (simp add: window_index_def)
    show ?thesis
      using sl ln wi by (simp add: nth)
  qed
  show ?thesis
  proof -
  have "\<exists>ws. group_slices eng grp = Inr ws \<and>
          length ws = ?n \<and>
          (\<forall>k < length ws.
             fst (ws ! k) = int k * ?S \<and>
             window_index eng (fst (ws ! k)) = int k \<and>
             snd (ws ! k) = take (nat ?W) (drop (k * nat ?S) grp) \<and>
             length (snd (ws ! k)) = nat ?W)"
    using eq len each by blast
  then show ?thesis by simp
  qed
qed

lemma group_slices_short:
  "int (length grp) < window_size eng \<Longrightarrow> group_slices eng grp = Inr []"
  by (simp add: group_slices_def)

section \<open>Constructor\<close>

text \<open>
  C10. With \<open>window_size \<ge> 2\<close>, the constructor called with \<open>step_size = 0\<close> raises
  nothing and returns the very engineer that \<open>step_size = None\<close> gives, whose hop is
  \<open>window_size div 2 > 0\<close>; so both slice every group, and transform every frame, alike.
\<close>

theorem init_step_zero:
  assumes "2 \<le> ws"
  shows "\<exists>eng. init sr ws (Some 0) lbl = Inr eng \<and> init sr ws None lbl = Inr eng \<and>
           step_size eng = ws div 2 \<and> 0 < step_size eng \<and>
           (\<forall>e0 e1. init sr ws (Some 0) lbl = Inr e0 \<and> init sr ws None lbl = Inr e1 \<longrightarrow>
              (\<forall>grp :: sample list. group_slices e0 grp = group_slices e1 grp) \<and>
              (\<forall>df sensor_cols timestamp_col vehicle_id_col severity_col.
                 transform float_mean e0 df sensor_cols timestamp_col vehicle_id_col severity_col =
                 transform float_mean e1 df sensor_cols timestamp_col vehicle_id_col severity_col))"
  using assms by (simp add: init_def py_or_def pos_imp_zdiv_pos_iff)

theorem init_step_zero_witness:
  "(2::int) \<le> 100 \<and>
   init 50 100 (Some 0) ''accident'' =
     Inr \<lparr>sampling_rate = 50, window_size = 100, step_size = 50, label_col = ''accident''\<rparr> \<and>
   init 50 100 None ''accident'' =
     Inr \<lparr>sampling_rate = 50, window_size = 100, step_size = 50, label_col = ''accident''\<rparr>"
  using init_step_zero [of 100 50 "''accident''"] by (auto simp: init_def py_or_def)

section \<open>The structure of transform\<close>

lemma sequence_results_map_Inr: "sequence_results (map Inr ys) = Inr ys"
  by (induction ys) auto

lemma sequence_results_InrD: "sequence_results xs = Inr ys \<Longrightarrow> xs = map Inr ys"
  by (induction xs arbitrary: ys) (auto split: sum.splits)

lemma sequence_results_Inr: "sequence_results xs = Inr ys \<longleftrightarrow> xs = map Inr ys"
  using sequence_results_map_Inr sequence_results_InrD by metis

lemma group_slices_subset:
  assumes "group_slices eng grp = Inr slices" "(start_idx, window) \<in> set slices"
  shows "set window \<subseteq> set grp"
  using assms
  by (auto simp: group_slices_def Let_def iloc_def split: if_splits sum.splits
      dest!: in_set_takeD in_set_dropD)

lemma groupby_subset: "(v, grp) \<in> set (groupby xs) \<Longrightarrow> set grp \<subseteq> set xs"
  by (auto simp: groupby_def)

lemma group_rows_origin:
  assumes "group_rows float_mean eng wdf sensor_cols severity_col (v, grp) = Inr rws" "w \<in> set rws"
  shows "\<exists>start_idx window. window_row float_mean eng wdf sensor_cols severity_col v (start_idx, window) = Inr w
           \<and> set window \<subseteq> set grp"
proof -
  from assms(1) obtain slices where sl: "group_slices eng grp = Inr slices"
    and m: "map (window_row float_mean eng wdf sensor_cols severity_col v) slices = map Inr rws"
    by (auto simp: group_rows_def sequence_results_Inr split: sum.splits)
  from assms(2) obtain i where i: "i < length rws" "rws ! i = w"
    by (auto simp: in_set_conv_nth)
  have len: "length slices = length rws" using m by (metis length_map)
  have "window_row float_mean eng wdf sensor_cols severity_col v (slices ! i) = Inr w"
    using m i len by (metis nth_map)
  moreover obtain a b where ab: "slices ! i = (a, b)" by (cases "slices ! i")
  moreover have "(a, b) \<in> set slices" using ab i len by (metis nth_mem)
  ultimately show ?thesis using group_slices_subset [OF sl] by metis
qed

lemma collect_windows_origin:
  assumes "collect_windows float_mean eng wdf sensor_cols severity_col (groupby xs) = Inr windows"
    "w \<in> set windows"
  shows "\<exists>v start_idx window.
           window_row float_mean eng wdf sensor_cols severity_col v (start_idx, window) = Inr w
           \<and> set window \<subseteq> set xs"
proof -
  from assms(1) obtain per_group where
    m: "map (group_rows float_mean eng wdf sensor_cols severity_col) (groupby xs) = map Inr per_group"
    and c: "windows = concat per_group"
    by (auto simp: collect_windows_def sequence_results_Inr split: sum.splits)
  from assms(2) c obtain rws where r: "rws \<in> set per_group" "w \<in> set rws" by auto
  then obtain i where i: "i < length per_group" "per_group ! i = rws"
    by (auto simp: in_set_conv_nth)
  have len: "length (groupby xs) = length per_group" using m by (metis length_map)
  have g: "group_rows float_mean eng wdf sensor_cols severity_col (groupby xs ! i) = Inr rws"
    using m i len by (metis nth_map)
  obtain v grp where vg: "groupby xs ! i = (v, grp)" by (cases "groupby xs ! i")
  have "(v, grp) \<in> set (groupby xs)" using vg i len by (metis nth_mem)
  then have "set grp \<subseteq> set xs" by (rule groupby_subset)
  then show ?thesis using group_rows_origin [OF g [unfolded vg] r(2)] by blast
qed

lemma working_frame_samples:
  assumes "s' \<in> set (samples (working_frame eng df timestamp_col vehicle_id_col))"
  shows "\<exists>s \<in> set (samples df). reading s' = reading s \<and> label s' = label s
            \<and> severity s' = severity s"
  using assms
  by (auto simp: working_frame_def Let_def sort_values_def in_set_enumerate_eq
      split: if_splits)

lemma transform_origin:
  assumes "transform float_mean eng df sensor_cols timestamp_col vehicle_id_col severity_col = Inr tbl"
  shows "\<exists>windows. finalise windows = Inr tbl \<and>
           (\<forall>w \<in> set windows. \<exists>v start_idx window.
              window_row float_mean eng (working_frame eng df timestamp_col vehicle_id_col)
                sensor_cols severity_col v (start_idx, window) = Inr w \<and>
              set window \<subseteq> set (samples (working_frame eng df timestamp_col vehicle_id_col)))"
  using assms collect_windows_origin
  by (auto simp: transform_def Let_def split: if_splits sum.splits)

lemma group_slices_total:
  assumes W: "0 < window_size eng" and S: "0 < step_size eng"
  shows "\<exists>ws. group_slices eng grp = Inr ws \<and> (\<forall>sl \<in> set ws. snd sl \<noteq> []) \<and>
           (window_size eng \<le> int (length grp) \<longrightarrow> ws \<noteq> [])"
proof (cases "window_size eng \<le> int (length grp)")
  case True
  from group_slices_windows [OF W S True] obtain ws where
    ws: "group_slices eng grp = Inr ws" "length ws = nat ((int (length grp) - window_size eng) div step_size eng) + 1"
      "\<forall>k < length ws. length (snd (ws ! k)) = nat (window_size eng)"
    by blast
  have "snd sl \<noteq> []" if "sl \<in> set ws" for sl
  proof -
    from that obtain k where "k < length ws" "ws ! k = sl" by (auto simp: in_set_conv_nth)
    then have "length (snd sl) = nat (window_size eng)" using ws(3) by auto
    then show ?thesis using W by auto
  qed
  moreover have "ws \<noteq> []" using ws(2) by auto
  ultimately show ?thesis using ws(1) by blast
next
  case False
  then show ?thesis by (simp add: group_slices_def)
qed

lemma fft_features_ok:
  "sampling_rate eng \<noteq> 0 \<Longrightarrow> \<exists>d. fft_features eng series prefix = Inr d"
  by (simp add: fft_features_def Let_def)

lemma sequence_results_ok:
  assumes "\<forall>x \<in> set xs. \<exists>y. f x = Inr y"
  shows "\<exists>ys. sequence_results (map f xs) = Inr ys \<and> length ys = length xs"
  using assms by (induction xs) (auto split: sum.splits)

lemma compute_window_features_ok:
  assumes "sampling_rate eng \<noteq> 0"
  shows "\<exists>features. compute_window_features float_mean eng wdf window sensor_cols severity_col = Inr features"
proof -
  have "\<forall>axis \<in> set sensor_cols. \<exists>y. map_sum id (Pair axis)
          (fft_features eng (axis_values window axis) (axis @ ''_fft'')) = Inr y"
    using fft_features_ok [OF assms] by (metis map_sum.simps(2))
  from sequence_results_ok [OF this] obtain axis_fft where
    "sequence_results (map (\<lambda>axis. map_sum id (Pair axis)
          (fft_features eng (axis_values window axis) (axis @ ''_fft''))) sensor_cols) = Inr axis_fft"
    by blast
  moreover obtain m where "fft_features eng (vector_magnitude window sensor_cols) ''magnitude_fft'' = Inr m"
    using fft_features_ok [OF assms] by blast
  ultimately show ?thesis
    by (simp add: compute_window_features_def Let_def)
qed

lemma window_row_ok:
  assumes "sampling_rate eng \<noteq> 0" "snd sl \<noteq> []"
  shows "\<exists>row. window_row float_mean eng wdf sensor_cols severity_col v sl = Inr row"
proof -
  obtain features where
    "compute_window_features float_mean eng wdf (snd sl) sensor_cols severity_col = Inr features"
    using compute_window_features_ok [OF assms(1)] by blast
  then show ?thesis using assms(2)
    by (cases sl) (auto simp: window_row_def Let_def split: list.splits)
qed

lemma group_rows_ok:
  assumes W: "0 < window_size eng" and S: "0 < step_size eng" and R: "sampling_rate eng \<noteq> 0"
  shows "\<exists>rws. group_rows float_mean eng wdf sensor_cols severity_col (v, grp) = Inr rws \<and>
           (window_size eng \<le> int (length grp) \<longrightarrow> rws \<noteq> [])"
proof -
  from group_slices_total [OF W S, of grp] obtain ws where
    ws: "group_slices eng grp = Inr ws" "\<forall>sl \<in> set ws. snd sl \<noteq> []"
      "window_size eng \<le> int (length grp) \<longrightarrow> ws \<noteq> []"
    by blast
  have "\<forall>sl \<in> set ws. \<exists>row. window_row float_mean eng wdf sensor_cols severity_col v sl = Inr row"
    using window_row_ok [OF R] ws(2) by blast
  from sequence_results_ok [OF this] obtain rws where
    "sequence_results (map (window_row float_mean eng wdf sensor_cols severity_col v) ws) = Inr rws"
    "length rws = length ws"
    by blast
  then show ?thesis using ws(1,3) by (auto simp: group_rows_def)
qed

lemma collect_windows_ok:
  assumes W: "0 < window_size eng" and S: "0 < step_size eng" and R: "sampling_rate eng \<noteq> 0"
    and v: "window_size eng \<le> int (length (filter (\<lambda>s. vehicle_id s = v) xs))"
  shows "\<exists>windows. collect_windows float_mean eng wdf sensor_cols severity_col (groupby xs) = Inr windows
           \<and> windows \<noteq> []"
proof -
  let ?f = "group_rows float_mean eng wdf sensor_cols severity_col"
  have "\<forall>g \<in> set (groupby xs). \<exists>rws. ?f g = Inr rws"
    using group_rows_ok [OF W S R] by (metis surj_pair)
  from sequence_results_ok [OF this] obtain per_group where
    pg: "sequence_results (map ?f (groupby xs)) = Inr per_group" by blast
  then have m: "map ?f (groupby xs) = map Inr per_group"
    by (simp add: sequence_results_Inr)
  have "filter (\<lambda>s. vehicle_id s = v) xs \<noteq> []" using v W by auto
  then have "v \<in> set (map vehicle_id xs)"
    by (auto simp: filter_empty_conv)
  then have g: "(v, filter (\<lambda>s. vehicle_id s = v) xs) \<in> set (groupby xs)"
    by (auto simp: groupby_def)
  obtain rws where r: "?f (v, filter (\<lambda>s. vehicle_id s = v) xs) = Inr rws" "rws \<noteq> []"
    using group_rows_ok [OF W S R] v by blast
  have "Inr rws \<in> set (map ?f (groupby xs))" using g r(1) by force
  then have "rws \<in> set per_group" unfolding m by auto
  then have "concat per_group \<noteq> []" using r(2) by auto
  then show ?thesis using pg by (simp add: collect_windows_def)
qed

lemma transform_ok:
  assumes W: "0 < window_size eng" and S: "0 < step_size eng" and R: "sampling_rate eng \<noteq> 0"
    and c: "set sensor_cols \<subseteq> set (columns df)" "label_col eng \<in> set (columns df)"
    and v: "window_size eng \<le> int (length (filter (\<lambda>s. vehicle_id s = v)
              (samples (working_frame eng df timestamp_col vehicle_id_col))))"
  shows "\<exists>tbl. transform float_mean eng df sensor_cols timestamp_col vehicle_id_col severity_col = Inr tbl"
proof -
  have "filter (\<lambda>c. c \<notin> set (columns df)) sensor_cols = []"
    using c(1) by (auto simp: filter_empty_conv)
  moreover obtain windows where
    "collect_windows float_mean eng (working_frame eng df timestamp_col vehicle_id_col) sensor_cols severity_col
       (groupby (samples (working_frame eng df timestamp_col vehicle_id_col))) = Inr windows"
    "windows \<noteq> []"
    using collect_windows_ok [OF W S R v] by blast
  ultimately show ?thesis using c(2)
    by (simp add: transform_def Let_def finalise_def)
qed

section \<open>The engineered table\<close>

lemma key_union_fold:
  "set (fold (\<lambda>w acc. acc @ filter (\<lambda>k. k \<notin> set acc) (remdups (map fst w))) ws acc)
   = set acc \<union> (\<Union>w \<in> set ws. fst ` set w)"
  by (induction ws arbitrary: acc) auto

lemma key_union_set: "set (key_union ws) = (\<Union>w \<in> set ws. fst ` set w)"
  by (simp add: key_union_def key_union_fold)

lemma cell_at_tabulate:
  "col \<in> set cs \<Longrightarrow> cell_at (map (\<lambda>c. (c, f c)) cs) col = f col"
  by (simp add: cell_at_def map_of_map_restrict)

lemma finalise_rows:
  assumes "finalise windows = Inr out"
  shows "cols out = key_union windows"
    and "rows out = map (\<lambda>w. map (\<lambda>col. (col,
              if col \<notin> transform_non_feature_cols
              then fillna_zero (replace_inf (cell_at w col)) else cell_at w col))
            (key_union windows)) windows"
    and "windows \<noteq> []"
  using assms
  by (auto simp: finalise_def Let_def pd_DataFrame_def assign_columns_def comp_def
      split: if_splits)

lemma finalise_cell:
  assumes f: "finalise windows = Inr out" and i: "i < length windows"
    and c: "col \<in> set (cols out)"
  shows "cell_at (rows out ! i) col =
           (if col \<notin> transform_non_feature_cols
            then fillna_zero (replace_inf (cell_at (windows ! i) col))
            else cell_at (windows ! i) col)"
  using i c finalise_rows(1) [OF f]
  by (simp add: finalise_rows(2) [OF f] cell_at_tabulate)

section \<open>Labels\<close>

lemma sum_list_01:
  assumes "\<forall>l \<in> set ls. l = 0 \<or> l = (1::int)"
  shows "0 \<le> sum_list ls \<and> sum_list ls \<le> int (length ls)"
  using assms by (induction ls) auto

lemma positive_ratio_bounds:
  assumes "\<forall>l \<in> set ls. l = 0 \<or> l = (1::int)" "ls \<noteq> []"
  shows "0 \<le> positive_ratio ls \<and> positive_ratio ls \<le> 1"
proof -
  have "0 \<le> real_of_int (sum_list ls)" "real_of_int (sum_list ls) \<le> real (length ls)"
    using sum_list_01 [OF assms(1)] by linarith+
  moreover have "0 < real (length ls)" using assms(2) by simp
  ultimately show ?thesis
    by (simp add: positive_ratio_def)
qed

lemma window_label_01:
  assumes "\<forall>l \<in> set ls. l = 0 \<or> l = (1::int)"
  shows "window_label ls = 1 \<longleftrightarrow> (\<exists>l \<in> set ls. l = 1)"
  using assms by (auto simp: window_label_def)

lemma window_row_label:
  assumes "window_row float_mean eng wdf sensor_cols severity_col vehicle (start_idx, window) = Inr row"
  shows "map_of row ''label'' = Some (num (real_of_int (window_label (map label window)))) \<and>
         map_of row ''positive_ratio'' = Some (num (positive_ratio (map label window))) \<and>
         window \<noteq> []"
  using assms
  by (auto simp: window_row_def Let_def update_conv' split: sum.splits list.splits)

lemma working_frame_count:
  "length (filter (\<lambda>s. vehicle_id s = v) (samples (working_frame eng df tc vc))) =
     (if vc \<in> set (columns df) \<or> (tc \<notin> set (columns df) \<and> vc = tc)
      then length (filter (\<lambda>s. vehicle_id s = v) (samples df))
      else if v = ''vehicle_0'' then length (samples df) else 0)"
proof -
  have e: "length (filter ((\<lambda>s. vehicle_id s = u) \<circ> (\<lambda>(i, s). s \<lparr> timestamp := f i \<rparr>))
             (enumerate n xs))
           = length (filter (\<lambda>s. vehicle_id s = u) xs)" for f n u and xs :: "sample list"
    by (induction xs arbitrary: n) auto
  have s: "length (filter P (sort_values xs)) = length (filter P xs)" for P xs
    by (simp add: sort_values_def filter_sort)
  have c: "length (filter (\<lambda>s. vehicle_id s = v) (map (\<lambda>s. s \<lparr> vehicle_id := w \<rparr>) xs))
           = (if v = w then length xs else 0)" for w and xs :: "sample list"
    by (induction xs) auto
  show ?thesis
    by (auto simp: working_frame_def Let_def s e c)
qed

lemma cleaned_cell:
  "fillna_zero (replace_inf c) = (if nan_or_inf c then num 0 else c)"
  by (auto simp: fillna_zero_def replace_inf_def nan_or_inf_def num_def
      split: cell.splits fval.splits)

lemma finalise_length:
  "finalise windows = Inr out \<Longrightarrow> length (rows out) = length windows"
  by (simp add: finalise_rows(2))

text \<open>
  C6. In the table that \<^verbatim>\<open>transform\<close> returns, no cell of a feature column (a column
  outside the six identity and label columns) is NaN or infinite. The clean-up does this
  for whatever rows the windows produced: a NaN or infinite cell of a feature column
  becomes 0.0 and every other cell is kept.
\<close>

theorem transform_features_finite:
  "(transform float_mean eng df sensor_cols timestamp_col vehicle_id_col severity_col = Inr tbl \<longrightarrow>
      (\<forall>row \<in> set (rows tbl). \<forall>col \<in> set (cols tbl).
         col \<notin> transform_non_feature_cols \<longrightarrow> \<not> nan_or_inf (cell_at row col))) \<and>
   (finalise windows = Inr out \<longrightarrow>
      length (rows out) = length windows \<and>
      (\<forall>i < length windows. \<forall>col \<in> set (cols out).
         col \<notin> transform_non_feature_cols \<longrightarrow>
           cell_at (rows out ! i) col =
             (if nan_or_inf (cell_at (windows ! i) col) then num 0
              else cell_at (windows ! i) col)))"
proof (intro conjI impI)
  assume f: "finalise windows = Inr out"
  show "length (rows out) = length windows" using f by (rule finalise_length)
  show "\<forall>i < length windows. \<forall>col \<in> set (cols out).
         col \<notin> transform_non_feature_cols \<longrightarrow>
           cell_at (rows out ! i) col =
             (if nan_or_inf (cell_at (windows ! i) col) then num 0
              else cell_at (windows ! i) col)"
    using finalise_cell [OF f] by (simp add: cleaned_cell)
next
  assume "transform float_mean eng df sensor_cols timestamp_col vehicle_id_col severity_col = Inr tbl"
  then obtain ws where f: "finalise ws = Inr tbl"
    using transform_origin by blast
  show "\<forall>row \<in> set (rows tbl). \<forall>col \<in> set (cols tbl).
         col \<notin> transform_non_feature_cols \<longrightarrow> \<not> nan_or_inf (cell_at row col)"
  proof (intro ballI impI)
    fix row col
    assume r: "row \<in> set (rows tbl)" and c: "col \<in> set (cols tbl)"
      and n: "col \<notin> transform_non_feature_cols"
    from r obtain i where i: "i < length (rows tbl)" "rows tbl ! i = row"
      by (auto simp: in_set_conv_nth)
    then have "i < length ws" using finalise_length [OF f] by simp
    then have "cell_at (rows tbl ! i) col =
        (if nan_or_inf (cell_at (ws ! i) col) then num 0 else cell_at (ws ! i) col)"
      using finalise_cell [OF f _ c, of i] n by (simp add: cleaned_cell)
    then have "cell_at row col =
        (if nan_or_inf (cell_at (ws ! i) col) then num 0 else cell_at (ws ! i) col)"
      unfolding i(2) .
    then show "\<not> nan_or_inf (cell_at row col)"
      by (auto simp: nan_or_inf_def num_def split: if_splits)
  qed
qed

lemma key_in_cols:
  assumes f: "finalise windows = Inr out" and w: "w \<in> set windows"
    and k: "map_of w k = Some v"
  shows "k \<in> set (cols out)"
proof -
  have "k \<in> fst ` set w" using k by (metis map_of_SomeD fst_conv image_eqI)
  then show ?thesis using w by (auto simp: finalise_rows(1) [OF f] key_union_set)
qed

lemma transform_rows:
  assumes t: "transform float_mean eng df sensor_cols timestamp_col vehicle_id_col severity_col = Inr tbl"
    and r: "row \<in> set (rows tbl)"
  shows "\<exists>windows i vehicle start_idx window.
           finalise windows = Inr tbl \<and> i < length windows \<and> rows tbl ! i = row \<and>
           window_row float_mean eng (working_frame eng df timestamp_col vehicle_id_col)
             sensor_cols severity_col vehicle (start_idx, window) = Inr (windows ! i) \<and>
           set window \<subseteq> set (samples (working_frame eng df timestamp_col vehicle_id_col))"
proof -
  from transform_origin [OF t] obtain windows where
    f: "finalise windows = Inr tbl"
    and o: "\<forall>w \<in> set windows. \<exists>v start_idx window.
              window_row float_mean eng (working_frame eng df timestamp_col vehicle_id_col)
                sensor_cols severity_col v (start_idx, window) = Inr w \<and>
              set window \<subseteq> set (samples (working_frame eng df timestamp_col vehicle_id_col))"
    by blast
  from r obtain i where i: "i < length (rows tbl)" "rows tbl ! i = row"
    by (auto simp: in_set_conv_nth)
  then have il: "i < length windows" using finalise_length [OF f] by simp
  then have "windows ! i \<in> set windows" by simp
  with o f il i(2) show ?thesis by blast
qed

lemma example_transform_ok:
  "\<exists>tbl. transform np_mean \<lparr>sampling_rate = 50, window_size = 2, step_size = 1, label_col = ''accident''\<rparr>
      \<lparr>columns = [''accel_x'', ''accel_y'', ''accel_z'', ''accident'', ''timestamp'', ''vehicle_id''],
        samples = [\<lparr>vehicle_id = ''v1'', timestamp = Fin 0, reading = (\<lambda>axis. 1), label = 0, severity = SevMissing\<rparr>,
          \<lparr>vehicle_id = ''v1'', timestamp = Fin 1, reading = (\<lambda>axis. 1), label = 1, severity = SevMissing\<rparr>,
          \<lparr>vehicle_id = ''v1'', timestamp = Fin 2, reading = (\<lambda>axis. 1), label = 0, severity = SevMissing\<rparr>]\<rparr>
      [''accel_x'', ''accel_y'', ''accel_z''] ''timestamp'' ''vehicle_id''
      (Some ''event_severity'') = Inr tbl"
  by (rule transform_ok [where v = "''v1''"]) (simp_all add: working_frame_count)

theorem transform_features_finite_witness:
  "(\<exists>tbl. transform np_mean \<lparr>sampling_rate = 50, window_size = 2, step_size = 1, label_col = ''accident''\<rparr>
      \<lparr>columns = [''accel_x'', ''accel_y'', ''accel_z'', ''accident'', ''timestamp'', ''vehicle_id''],
        samples = [\<lparr>vehicle_id = ''v1'', timestamp = Fin 0, reading = (\<lambda>axis. 1), label = 0, severity = SevMissing\<rparr>,
          \<lparr>vehicle_id = ''v1'', timestamp = Fin 1, reading = (\<lambda>axis. 1), label = 1, severity = SevMissing\<rparr>,
          \<lparr>vehicle_id = ''v1'', timestamp = Fin 2, reading = (\<lambda>axis. 1), label = 0, severity = SevMissing\<rparr>]\<rparr>
      [''accel_x'', ''accel_y'', ''accel_z''] ''timestamp'' ''vehicle_id''
      (Some ''event_severity'') = Inr tbl \<and>
    (\<forall>row \<in> set (rows tbl). \<forall>col \<in> set (cols tbl).
         col \<notin> transform_non_feature_cols \<longrightarrow> \<not> nan_or_inf (cell_at row col))) \<and>
   (\<exists>out. finalise [[(''accel_x_skew'', Num NaN), (''accel_x_max'', Num PosInf),
                 (''accel_x_min'', Num NegInf), (''accel_x_mean'', num 3)]] = Inr out \<and>
      length (rows out) = 1 \<and>
      cell_at (rows out ! 0) ''accel_x_skew'' = num 0 \<and>
      cell_at (rows out ! 0) ''accel_x_max'' = num 0 \<and>
      cell_at (rows out ! 0) ''accel_x_min'' = num 0 \<and>
      cell_at (rows out ! 0) ''accel_x_mean'' = num 3)"
proof -
  let ?e = "\<lparr>sampling_rate = 50, window_size = 2, step_size = 1, label_col = ''accident''\<rparr>"
  let ?df = "\<lparr>columns = [''accel_x'', ''accel_y'', ''accel_z'', ''accident'', ''timestamp'', ''vehicle_id''],
        samples = [\<lparr>vehicle_id = ''v1'', timestamp = Fin 0, reading = (\<lambda>axis. 1), label = 0, severity = SevMissing\<rparr>,
          \<lparr>vehicle_id = ''v1'', timestamp = Fin 1, reading = (\<lambda>axis. 1), label = 1, severity = SevMissing\<rparr>,
          \<lparr>vehicle_id = ''v1'', timestamp = Fin 2, reading = (\<lambda>axis. 1), label = 0, severity = SevMissing\<rparr>]\<rparr>"
  let ?ws = "[[(''accel_x_skew'', Num NaN), (''accel_x_max'', Num PosInf),
                 (''accel_x_min'', Num NegInf), (''accel_x_mean'', num 3)]]"
  obtain tbl where t: "transform np_mean ?e ?df [''accel_x'', ''accel_y'', ''accel_z''] ''timestamp'' ''vehicle_id'' (Some ''event_severity'') = Inr tbl"
    using example_transform_ok by blast
  obtain out where f: "finalise ?ws = Inr out"
    by (simp add: finalise_def Let_def)
  have c: "cols out = [''accel_x_skew'', ''accel_x_max'', ''accel_x_min'', ''accel_x_mean'']"
    using finalise_rows(1) [OF f] by (simp add: key_union_def)
  note T = transform_features_finite [of np_mean ?e ?df "[''accel_x'', ''accel_y'', ''accel_z'']"
      "''timestamp''" "''vehicle_id''" "Some ''event_severity''" tbl ?ws out]
  have 1: "\<forall>row \<in> set (rows tbl). \<forall>col \<in> set (cols tbl).
         col \<notin> transform_non_feature_cols \<longrightarrow> \<not> nan_or_inf (cell_at row col)"
    using T t by blast
  have 2: "length (rows out) = length ?ws \<and>
      (\<forall>i < length ?ws. \<forall>col \<in> set (cols out).
         col \<notin> transform_non_feature_cols \<longrightarrow>
           cell_at (rows out ! i) col =
             (if nan_or_inf (cell_at (?ws ! i) col) then num 0
              else cell_at (?ws ! i) col))"
    using T f by blast
  have 3: "length (rows out) = 1 \<and>
      cell_at (rows out ! 0) ''accel_x_skew'' = num 0 \<and>
      cell_at (rows out ! 0) ''accel_x_max'' = num 0 \<and>
      cell_at (rows out ! 0) ''accel_x_min'' = num 0 \<and>
      cell_at (rows out ! 0) ''accel_x_mean'' = num 3"
    using 2 by (simp add: c transform_non_feature_cols_def cell_at_def nan_or_inf_def num_def)
  show ?thesis using t 1 f 3 by blast
qed

section \<open>Threshold selection\<close>

lemma argmax_from_spec:
  "(\<forall>x \<in> set xs. x \<le> (if argmax_from bi bv i xs = bi then bv else xs ! (argmax_from bi bv i xs - i))) \<and>
   (argmax_from bi bv i xs = bi \<or>
      (i \<le> argmax_from bi bv i xs \<and> argmax_from bi bv i xs < i + length xs \<and>
       bv < xs ! (argmax_from bi bv i xs - i) \<and>
       (\<forall>j < argmax_from bi bv i xs - i. xs ! j < xs ! (argmax_from bi bv i xs - i))))"
  if "bi < i"
  using that
proof (induction xs arbitrary: bi bv i)
  case Nil
  then show ?case by simp
next
  case (Cons x xs)
  show ?case
  proof (cases "bv < x")
    case True
    let ?r = "argmax_from i x (Suc i) xs"
    have r: "argmax_from bi bv i (x # xs) = ?r" using True by simp
    have IH: "(\<forall>y \<in> set xs. y \<le> (if ?r = i then x else xs ! (?r - Suc i))) \<and>
       (?r = i \<or> (Suc i \<le> ?r \<and> ?r < Suc i + length xs \<and> x < xs ! (?r - Suc i) \<and>
         (\<forall>j < ?r - Suc i. xs ! j < xs ! (?r - Suc i))))"
      using Cons.IH [of i "Suc i" x] by simp
    have ne: "?r \<noteq> bi" using IH Cons.prems by auto
    show ?thesis
    proof (cases "?r = i")
      case True
      then show ?thesis using IH ne \<open>bv < x\<close> unfolding r by auto
    next
      case False
      then have g: "Suc i \<le> ?r" "?r < Suc i + length xs" "x < xs ! (?r - Suc i)"
        "\<forall>j < ?r - Suc i. xs ! j < xs ! (?r - Suc i)"
        "\<forall>y \<in> set xs. y \<le> xs ! (?r - Suc i)"
        using IH by auto
      have idx: "(x # xs) ! (?r - i) = xs ! (?r - Suc i)"
        using g(1) by (simp add: nth_Cons')
      have "\<forall>j < ?r - i. (x # xs) ! j < xs ! (?r - Suc i)"
      proof (intro allI impI)
        fix j assume "j < ?r - i"
        then show "(x # xs) ! j < xs ! (?r - Suc i)"
          using g(3,4) by (cases j) auto
      qed
      then show ?thesis
        using g ne \<open>bv < x\<close> unfolding r idx by auto
    qed
  next
    case False
    let ?r = "argmax_from bi bv (Suc i) xs"
    have r: "argmax_from bi bv i (x # xs) = ?r" using False by simp
    have IH: "(\<forall>y \<in> set xs. y \<le> (if ?r = bi then bv else xs ! (?r - Suc i))) \<and>
       (?r = bi \<or> (Suc i \<le> ?r \<and> ?r < Suc i + length xs \<and> bv < xs ! (?r - Suc i) \<and>
         (\<forall>j < ?r - Suc i. xs ! j < xs ! (?r - Suc i))))"
      using Cons.IH [of bi "Suc i" bv] Cons.prems by simp
    show ?thesis
    proof (cases "?r = bi")
      case True
      then show ?thesis using IH False unfolding r by auto
    next
      case False
      then have g: "Suc i \<le> ?r" "?r < Suc i + length xs" "bv < xs ! (?r - Suc i)"
        "\<forall>j < ?r - Suc i. xs ! j < xs ! (?r - Suc i)"
        "\<forall>y \<in> set xs. y \<le> xs ! (?r - Suc i)"
        using IH by auto
      have idx: "(x # xs) ! (?r - i) = xs ! (?r - Suc i)"
        using g(1) by (simp add: nth_Cons')
      have "\<forall>j < ?r - i. (x # xs) ! j < xs ! (?r - Suc i)"
      proof (intro allI impI)
        fix j assume "j < ?r - i"
        then show "(x # xs) ! j < xs ! (?r - Suc i)"
          using g(3,4) \<open>\<not> bv < x\<close> by (cases j) auto
      qed
      then show ?thesis
        using g False \<open>\<not> bv < x\<close> unfolding r idx by auto
    qed
  qed
qed

lemma np_argmax_spec:
  assumes "xs \<noteq> []"
  shows "np_argmax xs < length xs"
    and "\<forall>j < length xs. xs ! j \<le> xs ! np_argmax xs"
    and "\<forall>j < np_argmax xs. xs ! j < xs ! np_argmax xs"
proof -
  obtain x rest where xs: "xs = x # rest" using assms by (cases xs) auto
  let ?r = "argmax_from 0 x 1 rest"
  have r: "np_argmax xs = ?r" by (simp add: np_argmax_def xs)
  have S: "(\<forall>y \<in> set rest. y \<le> (if ?r = 0 then x else rest ! (?r - 1))) \<and>
     (?r = 0 \<or> (1 \<le> ?r \<and> ?r < 1 + length rest \<and> x < rest ! (?r - 1) \<and>
        (\<forall>j < ?r - 1. rest ! j < rest ! (?r - 1))))"
    using argmax_from_spec [of 0 1 rest x] by simp
  have v: "xs ! ?r = (if ?r = 0 then x else rest ! (?r - 1))"
    by (simp add: xs nth_Cons')
  show "np_argmax xs < length xs" using S unfolding r by (auto simp: xs)
  show "\<forall>j < length xs. xs ! j \<le> xs ! np_argmax xs"
  proof (intro allI impI)
    fix j assume j: "j < length xs"
    show "xs ! j \<le> xs ! np_argmax xs"
    proof (cases j)
      case 0
      then show ?thesis using S unfolding r v by (auto simp: xs)
    next
      case (Suc k)
      then have "rest ! k \<in> set rest" using j by (simp add: xs)
      then show ?thesis using S Suc unfolding r v by (auto simp: xs)
    qed
  qed
  show "\<forall>j < np_argmax xs. xs ! j < xs ! np_argmax xs"
  proof (intro allI impI)
    fix j assume j: "j < np_argmax xs"
    then have nz: "?r \<noteq> 0" by (simp add: r)
    show "xs ! j < xs ! np_argmax xs"
    proof (cases j)
      case 0
      then show ?thesis using S nz unfolding r v by (auto simp: xs)
    next
      case (Suc k)
      then have "k < ?r - 1" using j by (simp add: r)
      then show ?thesis using S nz Suc unfolding r v by (auto simp: xs)
    qed
  qed
qed


lemma first_index:
  assumes "filter P [0..<n] \<noteq> []"
  shows "filter P [0..<n] ! 0 < n \<and> P (filter P [0..<n] ! 0) \<and>
         (\<forall>j < filter P [0..<n] ! 0. \<not> P j)"
  using assms
proof (induction n)
  case 0
  then show ?case by simp
next
  case (Suc n)
  have split: "filter P [0..<Suc n] = filter P [0..<n] @ (if P n then [n] else [])"
    by simp
  show ?case
  proof (cases "filter P [0..<n] = []")
    case True
    have none: "\<not> P j" if "j < n" for j
      using True that by (simp add: filter_empty_conv)
    have "P n"
    proof (rule ccontr)
      assume "\<not> P n"
      then have "filter P [0..<Suc n] = []" unfolding split using True by simp
      then show False using Suc.prems by blast
    qed
    then have "filter P [0..<Suc n] = [n]" unfolding split using True by simp
    then show ?thesis using none \<open>P n\<close> by simp
  next
    case False
    then have "0 < length (filter P [0..<n])" by blast
    then have "filter P [0..<Suc n] ! 0 = filter P [0..<n] ! 0"
      unfolding split by (simp only: nth_append if_True)
    moreover have "filter P [0..<n] ! 0 < n \<and> P (filter P [0..<n] ! 0) \<and>
         (\<forall>j < filter P [0..<n] ! 0. \<not> P j)"
      using Suc.IH [OF False] .
    ultimately show ?thesis by (simp only: less_Suc_eq) blast
  qed
qed

lemma np_where_map:
  "np_where (map P xs) = filter (\<lambda>i. P (xs ! i)) [0..<length xs]"
proof -
  have "filter (\<lambda>i. map P xs ! i) [0..<length xs] = filter (\<lambda>i. P (xs ! i)) [0..<length xs]"
    by (rule filter_cong) simp_all
  then show ?thesis by (simp add: np_where_def)
qed

lemma np_where_first:
  assumes "np_where (map P xs) \<noteq> []"
  shows "np_where (map P xs) ! 0 < length xs \<and> P (xs ! (np_where (map P xs) ! 0)) \<and>
         (\<forall>j < np_where (map P xs) ! 0. \<not> P (xs ! j))"
  using first_index [of "\<lambda>i. P (xs ! i)" "length xs"] assms unfolding np_where_map .

lemma np_where_empty:
  "np_where (map P xs) = [] \<longleftrightarrow> (\<forall>i < length xs. \<not> P (xs ! i))"
  unfolding np_where_map by (auto simp: filter_empty_conv)

lemma f1_scores_length:
  "length (f1_scores precision recall) = min (length precision) (length recall)"
  by (simp add: f1_scores_def)

lemma f1_scores_nth:
  assumes "i < length precision" "i < length recall"
  shows "f1_scores precision recall ! i =
           2 * (precision ! i * recall ! i) / (precision ! i + recall ! i + 1 / 10 ^ 12)"
  using assms by (simp add: f1_scores_def)

lemma f1_nonneg:
  fixes p r :: real
  assumes "0 \<le> p" "0 \<le> r"
  shows "0 \<le> 2 * (p * r) / (p + r + 1 / 10 ^ 12)"
proof -
  have "0 < p + r + 1 / 10 ^ 12" using assms by (simp add: add_nonneg_pos)
  moreover have "0 \<le> 2 * (p * r)" using assms by simp
  ultimately show ?thesis by (rule divide_nonneg_pos [rotated])
qed

lemma optimise_threshold_fields:
  "optimal_threshold (optimise_threshold target precision recall thresholds) =
     threshold_candidates thresholds !
       (min (np_argmax (f1_scores precision recall)) (length (threshold_candidates thresholds) - 1))"
  "optimal_precision (optimise_threshold target precision recall thresholds) =
     precision ! np_argmax (f1_scores precision recall)"
  "optimal_recall (optimise_threshold target precision recall thresholds) =
     recall ! np_argmax (f1_scores precision recall)"
  by (simp_all add: optimise_threshold_def Let_def)

lemma optimise_threshold_reached:
  assumes "np_where (map (\<lambda>r. r \<ge> target) recall) \<noteq> []"
  shows "recall_threshold (optimise_threshold target precision recall thresholds) =
     threshold_candidates thresholds !
       (min (np_where (map (\<lambda>r. r \<ge> target) recall) ! 0)
            (length (threshold_candidates thresholds) - 1))"
  "recall_precision (optimise_threshold target precision recall thresholds) =
     precision ! (np_where (map (\<lambda>r. r \<ge> target) recall) ! 0)"
  "recall_recall (optimise_threshold target precision recall thresholds) =
     recall ! (np_where (map (\<lambda>r. r \<ge> target) recall) ! 0)"
  using assms by (simp_all add: optimise_threshold_def Let_def)

lemma optimise_threshold_fallback:
  assumes "np_where (map (\<lambda>r. r \<ge> target) recall) = []"
  shows "recall_threshold (optimise_threshold target precision recall thresholds) =
           optimal_threshold (optimise_threshold target precision recall thresholds)"
  "recall_precision (optimise_threshold target precision recall thresholds) =
           optimal_precision (optimise_threshold target precision recall thresholds)"
  "recall_recall (optimise_threshold target precision recall thresholds) =
           optimal_recall (optimise_threshold target precision recall thresholds)"
  using assms by (simp_all add: optimise_threshold_def Let_def)

text \<open>
  C2. On the arrays of a precision-recall curve (precision and recall one element longer
  than the thresholds, non-negative, the last recall 0), the candidates are 0.0 followed
  by the thresholds, as many as there are precision values, and paired with them index by
  index. The index chosen is the first one with the greatest
  \<open>F1 = 2 P R / (P + R + 1e-12)\<close>; it is never the last index, so the maximum is the same
  with the last precision/recall point dropped. The optimal threshold is the candidate at
  that index, the optimal precision and recall the values at that index.
\<close>

theorem optimise_threshold_optimal:
  assumes len: "length precision = length thresholds + 1" "length recall = length thresholds + 1"
    and ne: "thresholds \<noteq> []"
    and nonneg: "\<forall>p \<in> set precision. 0 \<le> p" "\<forall>r \<in> set recall. 0 \<le> r"
    and last0: "last recall = 0"
  shows "\<exists>best. best < length thresholds \<and>
           threshold_candidates thresholds = 0 # thresholds \<and>
           length (threshold_candidates thresholds) = length precision \<and>
           optimal_threshold (optimise_threshold target precision recall thresholds) =
             threshold_candidates thresholds ! best \<and>
           optimal_precision (optimise_threshold target precision recall thresholds) =
             precision ! best \<and>
           optimal_recall (optimise_threshold target precision recall thresholds) =
             recall ! best \<and>
           (\<forall>i < length precision.
              2 * (precision ! i * recall ! i) / (precision ! i + recall ! i + 1 / 10 ^ 12)
              \<le> 2 * (precision ! best * recall ! best)
                  / (precision ! best + recall ! best + 1 / 10 ^ 12)) \<and>
           (\<forall>i < best.
              2 * (precision ! i * recall ! i) / (precision ! i + recall ! i + 1 / 10 ^ 12)
              < 2 * (precision ! best * recall ! best)
                  / (precision ! best + recall ! best + 1 / 10 ^ 12))"
proof -
  let ?n = "length thresholds"
  let ?f1 = "f1_scores precision recall"
  let ?F = "\<lambda>i. 2 * (precision ! i * recall ! i) / (precision ! i + recall ! i + 1 / 10 ^ 12)"
  define best where "best = np_argmax ?f1"
  have fl: "length ?f1 = ?n + 1" using len by (simp add: f1_scores_length)
  then have fne: "?f1 \<noteq> []" by auto
  have nth: "?f1 ! i = ?F i" if "i < ?n + 1" for i
    using that len by (intro f1_scores_nth) simp_all
  have b1: "best < ?n + 1" using np_argmax_spec(1) [OF fne] fl by (simp add: best_def)
  have b2: "?f1 ! j \<le> ?f1 ! best" if "j < ?n + 1" for j
    using np_argmax_spec(2) [OF fne] that fl by (simp add: best_def)
  have b3: "?f1 ! j < ?f1 ! best" if "j < best" for j
    using np_argmax_spec(3) [OF fne] that by (simp add: best_def)
  have npos: "0 < ?n" using ne by simp
  have rn: "recall ! ?n = 0"
  proof -
    have "recall \<noteq> []" using len by auto
    then have "last recall = recall ! (length recall - 1)" by (rule last_conv_nth)
    then show ?thesis using last0 len by simp
  qed
  have Fn: "?F ?n = 0" by (simp add: rn)
  have F0: "0 \<le> ?F 0"
  proof (rule f1_nonneg)
    show "0 \<le> precision ! 0" using nonneg(1) len by (metis add_gr_0 nth_mem zero_less_one)
    show "0 \<le> recall ! 0" using nonneg(2) len by (metis add_gr_0 nth_mem zero_less_one)
  qed
  have "best \<noteq> ?n"
  proof
    assume e: "best = ?n"
    then have "?f1 ! 0 < ?f1 ! ?n" using b3 [of 0] npos by simp
    then have "?F 0 < ?F ?n" using nth [of 0] nth [of ?n] by simp
    with Fn F0 show False by linarith
  qed
  then have bl: "best < ?n" using b1 by simp
  have cl: "length (threshold_candidates thresholds) = ?n + 1"
    by (simp add: threshold_candidates_def)
  have m: "min best (length (threshold_candidates thresholds) - 1) = best"
    using bl cl by simp
  have le: "\<forall>i < length precision. ?F i \<le> ?F best"
  proof (intro allI impI)
    fix i assume "i < length precision"
    then have "i < ?n + 1" using len by simp
    then show "?F i \<le> ?F best" using b2 [of i] nth [of i] nth [of best] b1 by simp
  qed
  have lt: "\<forall>i < best. ?F i < ?F best"
  proof (intro allI impI)
    fix i assume i: "i < best"
    then have "i < ?n + 1" using b1 by simp
    then show "?F i < ?F best" using b3 [OF i] nth [of i] nth [of best] b1 by simp
  qed
  have o1: "optimal_threshold (optimise_threshold target precision recall thresholds) =
             threshold_candidates thresholds ! best"
    using m by (simp add: optimise_threshold_fields(1) best_def)
  have o2: "optimal_precision (optimise_threshold target precision recall thresholds) =
             precision ! best"
    by (simp add: optimise_threshold_fields(2) best_def)
  have o3: "optimal_recall (optimise_threshold target precision recall thresholds) =
             recall ! best"
    by (simp add: optimise_threshold_fields(3) best_def)
  have c0: "threshold_candidates thresholds = 0 # thresholds"
    by (simp add: threshold_candidates_def)
  have c1: "length (threshold_candidates thresholds) = length precision"
    using cl len by simp
  show ?thesis
    using bl c0 c1 o1 o2 o3 le lt by blast
qed

lemma candidates_sorted:
  assumes "sorted thresholds" "\<forall>t \<in> set thresholds. 0 \<le> t"
  shows "sorted (threshold_candidates thresholds)"
  using assms by (simp add: threshold_candidates_def)

lemma candidates_nonneg:
  assumes "\<forall>t \<in> set thresholds. 0 \<le> t" "k < length (threshold_candidates thresholds)"
  shows "0 \<le> threshold_candidates thresholds ! k"
proof -
  have "threshold_candidates thresholds ! k \<in> set (threshold_candidates thresholds)"
    using assms(2) by (rule nth_mem)
  then show ?thesis using assms(1) by (auto simp: threshold_candidates_def)
qed

text \<open>
  C4. On the arrays of a precision-recall curve (lengths as above, the thresholds
  non-negative and increasing, the recall values decreasing): when some index reaches the
  target recall, the recall threshold is the candidate at the first such index, no
  candidate that reaches the target is smaller, the recall precision and recall are the
  values at that index, and the recall threshold is at most the optimal threshold; when no
  index reaches the target, the three recall fields equal the three optimal fields.
\<close>

theorem optimise_threshold_recall:
  assumes len: "length precision = length thresholds + 1" "length recall = length thresholds + 1"
    and srt: "sorted thresholds" and tpos: "\<forall>t \<in> set thresholds. 0 \<le> t"
    and dec: "sorted_wrt (\<ge>) recall"
  shows "((\<exists>i < length recall. target \<le> recall ! i) \<longrightarrow>
           (\<exists>idx < length recall. target \<le> recall ! idx \<and> (\<forall>j < idx. recall ! j < target) \<and>
              recall_threshold (optimise_threshold target precision recall thresholds) =
                threshold_candidates thresholds ! idx \<and>
              recall_precision (optimise_threshold target precision recall thresholds) =
                precision ! idx \<and>
              recall_recall (optimise_threshold target precision recall thresholds) =
                recall ! idx \<and>
              (\<forall>j < length recall. target \<le> recall ! j \<longrightarrow>
                 threshold_candidates thresholds ! idx \<le> threshold_candidates thresholds ! j) \<and>
              recall_threshold (optimise_threshold target precision recall thresholds)
                \<le> optimal_threshold (optimise_threshold target precision recall thresholds))) \<and>
         (\<not> (\<exists>i < length recall. target \<le> recall ! i) \<longrightarrow>
            recall_threshold (optimise_threshold target precision recall thresholds) =
              optimal_threshold (optimise_threshold target precision recall thresholds) \<and>
            recall_precision (optimise_threshold target precision recall thresholds) =
              optimal_precision (optimise_threshold target precision recall thresholds) \<and>
            recall_recall (optimise_threshold target precision recall thresholds) =
              optimal_recall (optimise_threshold target precision recall thresholds))"
proof (intro conjI impI)
  let ?info = "optimise_threshold target precision recall thresholds"
  let ?c = "threshold_candidates thresholds"
  let ?t = "np_where (map (\<lambda>r. r \<ge> target) recall)"
  assume ex: "\<exists>i < length recall. target \<le> recall ! i"
  then have tne: "?t \<noteq> []" by (simp add: np_where_empty)
  define idx where "idx = ?t ! 0"
  have first: "idx < length recall" "target \<le> recall ! idx" "\<forall>j < idx. \<not> target \<le> recall ! j"
    using np_where_first [OF tne] by (simp_all add: idx_def)
  have cl: "length ?c = length recall" using len by (simp add: threshold_candidates_def)
  have m: "min idx (length ?c - 1) = idx" using first(1) cl by simp
  have r1: "recall_threshold ?info = ?c ! idx"
    using optimise_threshold_reached(1) [OF tne] m by (simp add: idx_def)
  have r2: "recall_precision ?info = precision ! idx"
    using optimise_threshold_reached(2) [OF tne] by (simp add: idx_def)
  have r3: "recall_recall ?info = recall ! idx"
    using optimise_threshold_reached(3) [OF tne] by (simp add: idx_def)
  have small: "\<forall>j < length recall. target \<le> recall ! j \<longrightarrow> ?c ! idx \<le> ?c ! j"
  proof (intro allI impI)
    fix j assume j: "j < length recall" "target \<le> recall ! j"
    then have "idx \<le> j" using first(3) by (meson not_le_imp_less)
    then show "?c ! idx \<le> ?c ! j"
      using candidates_sorted [OF srt tpos] j(1) cl by (simp add: sorted_nth_mono)
  qed
  have zero: "idx = 0"
  proof (rule ccontr)
    assume "idx \<noteq> 0"
    then have pos: "0 < idx" by simp
    then have "recall ! idx \<le> recall ! 0"
      using dec first(1) by (simp add: sorted_wrt_iff_nth_less)
    then have "target \<le> recall ! 0" using first(2) by linarith
    then show False using first(3) pos by blast
  qed
  have "?c ! idx = 0" by (simp add: zero threshold_candidates_def)
  moreover have "0 \<le> optimal_threshold ?info"
    unfolding optimise_threshold_fields(1)
    by (rule candidates_nonneg [OF tpos]) (simp add: threshold_candidates_def)
  ultimately have le: "recall_threshold ?info \<le> optimal_threshold ?info"
    using r1 by simp
  have lt: "\<forall>j < idx. recall ! j < target" using first(3) by (simp add: not_le)
  show "\<exists>idx < length recall. target \<le> recall ! idx \<and> (\<forall>j < idx. recall ! j < target) \<and>
          recall_threshold ?info = ?c ! idx \<and>
          recall_precision ?info = precision ! idx \<and>
          recall_recall ?info = recall ! idx \<and>
          (\<forall>j < length recall. target \<le> recall ! j \<longrightarrow> ?c ! idx \<le> ?c ! j) \<and>
          recall_threshold ?info \<le> optimal_threshold ?info"
    using first(1,2) lt r1 r2 r3 small le by blast
next
  let ?info = "optimise_threshold target precision recall thresholds"
  assume "\<not> (\<exists>i < length recall. target \<le> recall ! i)"
  then have e: "np_where (map (\<lambda>r. r \<ge> target) recall) = []"
    by (simp add: np_where_empty)
  show "recall_threshold ?info = optimal_threshold ?info"
    by (rule optimise_threshold_fallback(1) [OF e])
  show "recall_precision ?info = optimal_precision ?info"
    by (rule optimise_threshold_fallback(2) [OF e])
  show "recall_recall ?info = optimal_recall ?info"
    by (rule optimise_threshold_fallback(3) [OF e])
qed

lemma example_curve:
  "optimise_threshold (9 / 10) [1 / 2, 2 / 3, 1 / 2, 1, 1] [1, 1, 1 / 2, 1 / 2, 0]
      [1 / 10, 35 / 100, 4 / 10, 8 / 10] =
   \<lparr>optimal_threshold = 1 / 10, optimal_precision = 2 / 3, optimal_recall = 1,
     recall_threshold = 0, recall_precision = 1 / 2, recall_recall = 1\<rparr>"
  by (simp add: optimise_threshold_def f1_scores_def threshold_candidates_def np_argmax_def
      np_where_def Let_def upt_rec_numeral)

lemma example_curve_unreachable:
  "optimise_threshold (11 / 10) [1 / 2, 2 / 3, 1 / 2, 1, 1] [1, 1, 1 / 2, 1 / 2, 0]
      [1 / 10, 35 / 100, 4 / 10, 8 / 10] =
   \<lparr>optimal_threshold = 1 / 10, optimal_precision = 2 / 3, optimal_recall = 1,
     recall_threshold = 1 / 10, recall_precision = 2 / 3, recall_recall = 1\<rparr>"
  by (simp add: optimise_threshold_def f1_scores_def threshold_candidates_def np_argmax_def
      np_where_def Let_def upt_rec_numeral)

theorem optimise_threshold_optimal_witness:
  "(\<exists>best < length [1 / 10, 35 / 100, 4 / 10, 8 / 10].
      optimal_threshold (optimise_threshold (9 / 10) [1 / 2, 2 / 3, 1 / 2, 1, 1] [1, 1, 1 / 2, 1 / 2, 0]
        [1 / 10, 35 / 100, 4 / 10, 8 / 10]) = threshold_candidates [1 / 10, 35 / 100, 4 / 10, 8 / 10] ! best \<and>
      optimal_precision (optimise_threshold (9 / 10) [1 / 2, 2 / 3, 1 / 2, 1, 1] [1, 1, 1 / 2, 1 / 2, 0]
        [1 / 10, 35 / 100, 4 / 10, 8 / 10]) = [1 / 2, 2 / 3, 1 / 2, 1, 1] ! best \<and>
      optimal_recall (optimise_threshold (9 / 10) [1 / 2, 2 / 3, 1 / 2, 1, 1] [1, 1, 1 / 2, 1 / 2, 0]
        [1 / 10, 35 / 100, 4 / 10, 8 / 10]) = [1, 1, 1 / 2, 1 / 2, 0] ! best) \<and>
   optimal_threshold (optimise_threshold (9 / 10) [1 / 2, 2 / 3, 1 / 2, 1, 1] [1, 1, 1 / 2, 1 / 2, 0]
        [1 / 10, 35 / 100, 4 / 10, 8 / 10]) = 1 / 10 \<and>
   optimal_precision (optimise_threshold (9 / 10) [1 / 2, 2 / 3, 1 / 2, 1, 1] [1, 1, 1 / 2, 1 / 2, 0]
        [1 / 10, 35 / 100, 4 / 10, 8 / 10]) = 2 / 3 \<and>
   optimal_recall (optimise_threshold (9 / 10) [1 / 2, 2 / 3, 1 / 2, 1, 1] [1, 1, 1 / 2, 1 / 2, 0]
        [1 / 10, 35 / 100, 4 / 10, 8 / 10]) = 1"
proof -
  let ?P = "[1 / 2, 2 / 3, 1 / 2, 1, 1] :: real list" and ?R = "[1, 1, 1 / 2, 1 / 2, 0] :: real list"
  let ?T = "[1 / 10, 35 / 100, 4 / 10, 8 / 10] :: real list"
  have "\<exists>best. best < length ?T \<and>
           threshold_candidates ?T = 0 # ?T \<and>
           length (threshold_candidates ?T) = length ?P \<and>
           optimal_threshold (optimise_threshold (9 / 10) ?P ?R ?T) =
             threshold_candidates ?T ! best \<and>
           optimal_precision (optimise_threshold (9 / 10) ?P ?R ?T) = ?P ! best \<and>
           optimal_recall (optimise_threshold (9 / 10) ?P ?R ?T) = ?R ! best \<and>
           (\<forall>i < length ?P.
              2 * (?P ! i * ?R ! i) / (?P ! i + ?R ! i + 1 / 10 ^ 12)
              \<le> 2 * (?P ! best * ?R ! best) / (?P ! best + ?R ! best + 1 / 10 ^ 12)) \<and>
           (\<forall>i < best.
              2 * (?P ! i * ?R ! i) / (?P ! i + ?R ! i + 1 / 10 ^ 12)
              < 2 * (?P ! best * ?R ! best) / (?P ! best + ?R ! best + 1 / 10 ^ 12))"
    by (rule optimise_threshold_optimal) simp_all
  then have "\<exists>best < length ?T.
      optimal_threshold (optimise_threshold (9 / 10) ?P ?R ?T) = threshold_candidates ?T ! best \<and>
      optimal_precision (optimise_threshold (9 / 10) ?P ?R ?T) = ?P ! best \<and>
      optimal_recall (optimise_threshold (9 / 10) ?P ?R ?T) = ?R ! best"
    by blast
  then show ?thesis unfolding example_curve by simp
qed

theorem optimise_threshold_recall_witness:
  "recall_threshold (optimise_threshold (9 / 10) [1 / 2, 2 / 3, 1 / 2, 1, 1] [1, 1, 1 / 2, 1 / 2, 0]
        [1 / 10, 35 / 100, 4 / 10, 8 / 10]) = 0 \<and>
   recall_threshold (optimise_threshold (9 / 10) [1 / 2, 2 / 3, 1 / 2, 1, 1] [1, 1, 1 / 2, 1 / 2, 0]
        [1 / 10, 35 / 100, 4 / 10, 8 / 10])
     \<le> optimal_threshold (optimise_threshold (9 / 10) [1 / 2, 2 / 3, 1 / 2, 1, 1] [1, 1, 1 / 2, 1 / 2, 0]
        [1 / 10, 35 / 100, 4 / 10, 8 / 10]) \<and>
   recall_threshold (optimise_threshold (11 / 10) [1 / 2, 2 / 3, 1 / 2, 1, 1] [1, 1, 1 / 2, 1 / 2, 0]
        [1 / 10, 35 / 100, 4 / 10, 8 / 10])
     = optimal_threshold (optimise_threshold (11 / 10) [1 / 2, 2 / 3, 1 / 2, 1, 1] [1, 1, 1 / 2, 1 / 2, 0]
        [1 / 10, 35 / 100, 4 / 10, 8 / 10]) \<and>
   recall_precision (optimise_threshold (11 / 10) [1 / 2, 2 / 3, 1 / 2, 1, 1] [1, 1, 1 / 2, 1 / 2, 0]
        [1 / 10, 35 / 100, 4 / 10, 8 / 10])
     = optimal_precision (optimise_threshold (11 / 10) [1 / 2, 2 / 3, 1 / 2, 1, 1] [1, 1, 1 / 2, 1 / 2, 0]
        [1 / 10, 35 / 100, 4 / 10, 8 / 10]) \<and>
   recall_recall (optimise_threshold (11 / 10) [1 / 2, 2 / 3, 1 / 2, 1, 1] [1, 1, 1 / 2, 1 / 2, 0]
        [1 / 10, 35 / 100, 4 / 10, 8 / 10])
     = optimal_recall (optimise_threshold (11 / 10) [1 / 2, 2 / 3, 1 / 2, 1, 1] [1, 1, 1 / 2, 1 / 2, 0]
        [1 / 10, 35 / 100, 4 / 10, 8 / 10])"
proof -
  let ?P = "[1 / 2, 2 / 3, 1 / 2, 1, 1] :: real list" and ?R = "[1, 1, 1 / 2, 1 / 2, 0] :: real list"
  let ?T = "[1 / 10, 35 / 100, 4 / 10, 8 / 10] :: real list"
  have h: "length ?P = length ?T + 1" "length ?R = length ?T + 1" "sorted ?T"
    "\<forall>t \<in> set ?T. 0 \<le> t" "sorted_wrt (\<ge>) ?R"
    by simp_all
  have reach: "\<exists>i < length ?R. 9 / 10 \<le> ?R ! i"
    by (intro exI [of _ 0]) simp
  have unreach: "\<not> (\<exists>i < length ?R. 11 / 10 \<le> ?R ! i)"
    by (auto simp: nth_Cons' less_Suc_eq eval_nat_numeral)
  have a: "recall_threshold (optimise_threshold (9 / 10) ?P ?R ?T)
     \<le> optimal_threshold (optimise_threshold (9 / 10) ?P ?R ?T)"
    using optimise_threshold_recall [OF h, of "9 / 10"] reach by blast
  have b: "recall_threshold (optimise_threshold (11 / 10) ?P ?R ?T) =
              optimal_threshold (optimise_threshold (11 / 10) ?P ?R ?T) \<and>
            recall_precision (optimise_threshold (11 / 10) ?P ?R ?T) =
              optimal_precision (optimise_threshold (11 / 10) ?P ?R ?T) \<and>
            recall_recall (optimise_threshold (11 / 10) ?P ?R ?T) =
              optimal_recall (optimise_threshold (11 / 10) ?P ?R ?T)"
    using optimise_threshold_recall [OF h, of "11 / 10"] unreach by blast
  have c: "recall_threshold (optimise_threshold (9 / 10) ?P ?R ?T) = 0"
    unfolding example_curve by simp
  show ?thesis using a b c by blast
qed

section \<open>Feature columns at fit and at inference time\<close>

lemma key_union_distinct_fold:
  "distinct acc \<Longrightarrow>
   distinct (fold (\<lambda>w acc. acc @ filter (\<lambda>k. k \<notin> set acc) (remdups (map fst w))) ws acc)"
proof (induction ws arbitrary: acc)
  case Nil
  then show ?case by simp
next
  case (Cons w ws)
  have "distinct (acc @ filter (\<lambda>k. k \<notin> set acc) (remdups (map fst w)))"
    using Cons.prems by auto
  then show ?case using Cons.IH by simp
qed

lemma key_union_distinct: "distinct (key_union ws)"
  by (simp add: key_union_def key_union_distinct_fold)

lemma transform_has_positive_ratio:
  assumes t: "transform float_mean eng df sensor_cols timestamp_col vehicle_id_col severity_col = Inr tbl"
  shows "''positive_ratio'' \<in> set (cols tbl)" and "distinct (cols tbl)"
proof -
  from transform_origin [OF t] obtain windows where
    f: "finalise windows = Inr tbl"
    and o: "\<forall>w \<in> set windows. \<exists>v start_idx window.
              window_row float_mean eng (working_frame eng df timestamp_col vehicle_id_col)
                sensor_cols severity_col v (start_idx, window) = Inr w \<and>
              set window \<subseteq> set (samples (working_frame eng df timestamp_col vehicle_id_col))"
    by blast
  have "windows \<noteq> []" using finalise_rows(3) [OF f] .
  then obtain w where w: "w \<in> set windows" by (cases windows) auto
  with o obtain v start_idx window where
    "window_row float_mean eng (working_frame eng df timestamp_col vehicle_id_col)
       sensor_cols severity_col v (start_idx, window) = Inr w"
    by blast
  then have "map_of w ''positive_ratio'' = Some (num (positive_ratio (map label window)))"
    using window_row_label by blast
  then show "''positive_ratio'' \<in> set (cols tbl)" using key_in_cols [OF f w] by blast
  show "distinct (cols tbl)" using finalise_rows(1) [OF f] key_union_distinct by simp
qed

lemma filter_out_one:
  assumes "distinct xs" "x \<in> set xs"
  shows "length xs = length (filter (\<lambda>c. c \<noteq> x) xs) + 1"
proof -
  have id: "filter (\<lambda>c. c \<noteq> x) ys = ys" if "x \<notin> set ys" for ys
    using that by (induction ys) auto
  show ?thesis using assms by (induction xs) (auto simp: id)
qed

lemma fit_predict_cols:
  "predict_feature_cols tbl = filter (\<lambda>c. c \<noteq> ''positive_ratio'') (fit_feature_cols tbl)"
  by (auto simp: predict_feature_cols_def fit_feature_cols_def predict_non_feature_cols_def
      fit_non_feature_cols_def intro: filter_cong)

lemma fit_artifacts_columns:
  "feature_columns (fit_artifacts tbl fitted info) = fit_feature_cols tbl"
  "n_features_in (pipeline (fit_artifacts tbl fitted info)) = length (fit_feature_cols tbl)"
  "fitted_proba (pipeline (fit_artifacts tbl fitted info)) = fitted"
  by (simp_all add: fit_artifacts_def Let_def values_of_def)

text \<open>
  C9. For a table engineered by \<^verbatim>\<open>transform\<close>, the column list that \<^verbatim>\<open>fit\<close> records
  contains \<open>positive_ratio\<close>, and the inference script's feature columns for a table
  with the same columns do not: the recorded set is the inference set plus
  \<open>positive_ratio\<close>, a strict superset with exactly one more column.
\<close>

theorem fit_columns_contain_positive_ratio:
  assumes t: "transform float_mean eng df sensor_cols timestamp_col vehicle_id_col severity_col = Inr fit_df"
    and same: "cols predict_df = cols fit_df"
  shows "''positive_ratio'' \<in> set (feature_columns (fit_artifacts fit_df fitted info)) \<and>
         ''positive_ratio'' \<notin> set (predict_feature_cols predict_df) \<and>
         set (predict_feature_cols predict_df)
           \<subset> set (feature_columns (fit_artifacts fit_df fitted info)) \<and>
         set (feature_columns (fit_artifacts fit_df fitted info)) =
           insert ''positive_ratio'' (set (predict_feature_cols predict_df)) \<and>
         length (feature_columns (fit_artifacts fit_df fitted info)) =
           length (predict_feature_cols predict_df) + 1"
proof -
  let ?fit = "fit_feature_cols fit_df"
  have pe: "predict_feature_cols predict_df = filter (\<lambda>c. c \<noteq> ''positive_ratio'') ?fit"
    using same by (simp add: fit_predict_cols [symmetric] predict_feature_cols_def)
  have mem: "''positive_ratio'' \<in> set ?fit"
    using transform_has_positive_ratio(1) [OF t]
    by (simp add: fit_feature_cols_def fit_non_feature_cols_def)
  have d: "distinct ?fit"
    using transform_has_positive_ratio(2) [OF t] by (simp add: fit_feature_cols_def)
  have notin: "''positive_ratio'' \<notin> set (predict_feature_cols predict_df)"
    by (simp add: pe)
  have eq: "set ?fit = insert ''positive_ratio'' (set (predict_feature_cols predict_df))"
    using mem by (auto simp: pe)
  have sub: "set (predict_feature_cols predict_df) \<subset> set ?fit"
    using eq notin by blast
  have len: "length ?fit = length (predict_feature_cols predict_df) + 1"
    unfolding pe using filter_out_one [OF d mem] .
  show ?thesis
    using mem notin sub eq len by (simp add: fit_artifacts_columns)
qed

theorem fit_columns_contain_positive_ratio_witness:
  "\<exists>tbl. transform np_mean \<lparr>sampling_rate = 50, window_size = 2, step_size = 1, label_col = ''accident''\<rparr>
      \<lparr>columns = [''accel_x'', ''accel_y'', ''accel_z'', ''accident'', ''timestamp'', ''vehicle_id''],
        samples = [\<lparr>vehicle_id = ''v1'', timestamp = Fin 0, reading = (\<lambda>axis. 1), label = 0, severity = SevMissing\<rparr>,
          \<lparr>vehicle_id = ''v1'', timestamp = Fin 1, reading = (\<lambda>axis. 1), label = 1, severity = SevMissing\<rparr>,
          \<lparr>vehicle_id = ''v1'', timestamp = Fin 2, reading = (\<lambda>axis. 1), label = 0, severity = SevMissing\<rparr>]\<rparr>
      [''accel_x'', ''accel_y'', ''accel_z''] ''timestamp'' ''vehicle_id''
      (Some ''event_severity'') = Inr tbl \<and>
     ''positive_ratio'' \<in> set (feature_columns (fit_artifacts tbl (\<lambda>X. map (\<lambda>row. 3 / 4) X)
        \<lparr>optimal_threshold = 1 / 2, optimal_precision = 1, optimal_recall = 1,
        recall_threshold = 0, recall_precision = 1 / 2, recall_recall = 1\<rparr>)) \<and>
     ''positive_ratio'' \<notin> set (predict_feature_cols tbl) \<and>
     set (predict_feature_cols tbl) \<subset> set (feature_columns (fit_artifacts tbl (\<lambda>X. map (\<lambda>row. 3 / 4) X)
        \<lparr>optimal_threshold = 1 / 2, optimal_precision = 1, optimal_recall = 1,
        recall_threshold = 0, recall_precision = 1 / 2, recall_recall = 1\<rparr>))"
proof -
  let ?e = "\<lparr>sampling_rate = 50, window_size = 2, step_size = 1, label_col = ''accident''\<rparr>"
  let ?df = "\<lparr>columns = [''accel_x'', ''accel_y'', ''accel_z'', ''accident'', ''timestamp'', ''vehicle_id''],
        samples = [\<lparr>vehicle_id = ''v1'', timestamp = Fin 0, reading = (\<lambda>axis. 1), label = 0, severity = SevMissing\<rparr>,
          \<lparr>vehicle_id = ''v1'', timestamp = Fin 1, reading = (\<lambda>axis. 1), label = 1, severity = SevMissing\<rparr>,
          \<lparr>vehicle_id = ''v1'', timestamp = Fin 2, reading = (\<lambda>axis. 1), label = 0, severity = SevMissing\<rparr>]\<rparr>"
  obtain tbl where t: "transform np_mean ?e ?df [''accel_x'', ''accel_y'', ''accel_z''] ''timestamp''
      ''vehicle_id'' (Some ''event_severity'') = Inr tbl"
    using example_transform_ok by blast
  show ?thesis
    using t fit_columns_contain_positive_ratio [OF t refl] by blast
qed

text \<open>
  C3 (amended). Inference never consults the column list recorded at fit time. It fails,
  with the pipeline's own error, exactly when the number of feature columns of the table
  differs from the number of columns the pipeline was fitted on; a table with as many
  feature columns is predicted, whatever their names.
\<close>

theorem predict_main_count_check:
  "predict_main (pipeline (fit_artifacts train_df fitted info)) thr features_df =
     (if length (predict_feature_cols features_df)
           \<noteq> length (feature_columns (fit_artifacts train_df fitted info))
      then Inl (FeatureCountMismatch (length (predict_feature_cols features_df))
                  (length (feature_columns (fit_artifacts train_df fitted info))))
      else Inr (map (\<lambda>p. if p \<ge> thr then 1 else 0)
                  (fitted (cells (values_of features_df (predict_feature_cols features_df))))))"
  by (simp add: predict_main_def predict_proba_def Let_def fit_artifacts_columns values_of_def)

theorem predict_main_count_check_witness:
  "predict_main (pipeline (fit_artifacts \<lparr>cols = [''accel_x_mean'', ''label'', ''positive_ratio''],
        rows = [[(''accel_x_mean'', num 1), (''label'', num 1), (''positive_ratio'', num 1)]]\<rparr> (\<lambda>X. map (\<lambda>row. 3 / 4) X)
        \<lparr>optimal_threshold = 1 / 2, optimal_precision = 1, optimal_recall = 1,
        recall_threshold = 0, recall_precision = 1 / 2, recall_recall = 1\<rparr>)) (1 / 2)
      \<lparr>cols = [''accel_x_mean'', ''label'', ''positive_ratio''],
        rows = [[(''accel_x_mean'', num 1), (''label'', num 1), (''positive_ratio'', num 1)]]\<rparr> = Inl (FeatureCountMismatch 1 2)"
  using predict_main_count_check [of "\<lparr>cols = [''accel_x_mean'', ''label'', ''positive_ratio''],
        rows = [[(''accel_x_mean'', num 1), (''label'', num 1), (''positive_ratio'', num 1)]]\<rparr>" "(\<lambda>X. map (\<lambda>row. 3 / 4) X)"
        "\<lparr>optimal_threshold = 1 / 2, optimal_precision = 1, optimal_recall = 1,
        recall_threshold = 0, recall_precision = 1 / 2, recall_recall = 1\<rparr>" "1 / 2"
      "\<lparr>cols = [''accel_x_mean'', ''label'', ''positive_ratio''],
        rows = [[(''accel_x_mean'', num 1), (''label'', num 1), (''positive_ratio'', num 1)]]\<rparr>"]
  by (simp add: fit_artifacts_columns fit_feature_cols_def predict_feature_cols_def
      fit_non_feature_cols_def predict_non_feature_cols_def)

text \<open>
  C3 as stated fails: a detector fitted on the columns \<open>accel_x_mean, positive_ratio\<close>
  predicts a table whose feature columns are \<open>accel_x_mean, accel_x_std\<close>.
\<close>

theorem predict_main_mismatch_counterexample:
  "feature_columns (fit_artifacts \<lparr>cols = [''accel_x_mean'', ''label'', ''positive_ratio''],
        rows = [[(''accel_x_mean'', num 1), (''label'', num 1), (''positive_ratio'', num 1)]]\<rparr> (\<lambda>X. map (\<lambda>row. 3 / 4) X)
        \<lparr>optimal_threshold = 1 / 2, optimal_precision = 1, optimal_recall = 1,
        recall_threshold = 0, recall_precision = 1 / 2, recall_recall = 1\<rparr>) = [''accel_x_mean'', ''positive_ratio''] \<and>
   predict_feature_cols \<lparr>cols = [''accel_x_mean'', ''accel_x_std'', ''label'', ''positive_ratio''],
        rows = [[(''accel_x_mean'', num 1), (''accel_x_std'', num 0), (''label'', num 0),
                 (''positive_ratio'', num 0)]]\<rparr> = [''accel_x_mean'', ''accel_x_std''] \<and>
   predict_main (pipeline (fit_artifacts \<lparr>cols = [''accel_x_mean'', ''label'', ''positive_ratio''],
        rows = [[(''accel_x_mean'', num 1), (''label'', num 1), (''positive_ratio'', num 1)]]\<rparr> (\<lambda>X. map (\<lambda>row. 3 / 4) X)
        \<lparr>optimal_threshold = 1 / 2, optimal_precision = 1, optimal_recall = 1,
        recall_threshold = 0, recall_precision = 1 / 2, recall_recall = 1\<rparr>)) (1 / 2)
      \<lparr>cols = [''accel_x_mean'', ''accel_x_std'', ''label'', ''positive_ratio''],
        rows = [[(''accel_x_mean'', num 1), (''accel_x_std'', num 0), (''label'', num 0),
                 (''positive_ratio'', num 0)]]\<rparr> = Inr [1]"
  by (simp add: predict_main_def predict_proba_def Let_def fit_artifacts_columns values_of_def
      fit_feature_cols_def predict_feature_cols_def fit_non_feature_cols_def
      predict_non_feature_cols_def)

section \<open>A window of zeros\<close>

lemma sum_list_zeros: "sum_list (replicate n (0::real)) = 0"
  by (induction n) auto

lemma np_mean_zeros: "np_mean (replicate n 0) = 0"
  by (simp add: np_mean_def sum_list_zeros)

lemma central_moment_zeros: "0 < k \<Longrightarrow> central_moment k (replicate n 0) = 0"
  by (simp add: central_moment_def np_mean_zeros np_mean_def sum_list_zeros
      map_replicate_const zero_power)

lemma np_std_zeros: "np_std (replicate n 0) = 0"
  by (simp add: np_std_def central_moment_zeros)

lemma np_max_zeros: "0 < n \<Longrightarrow> np_max (replicate n 0) = 0"
  by (simp add: np_max_def)

lemma np_min_zeros: "0 < n \<Longrightarrow> np_min (replicate n 0) = 0"
  by (simp add: np_min_def)

lemma np_ptp_zeros: "0 < n \<Longrightarrow> np_ptp (replicate n 0) = 0"
  by (simp add: np_ptp_def np_max_zeros np_min_zeros)

lemma energy_zeros: "sum_list (map (\<lambda>x. x ^ 2) (replicate n (0::real))) = 0"
  by (simp add: sum_list_zeros)

lemma skew_zeros: "skew (replicate n 0) = NaN"
  by (simp add: skew_def central_moment_zeros np_mean_zeros)

lemma kurtosis_zeros: "kurtosis (replicate n 0) = NaN"
  by (simp add: kurtosis_def central_moment_zeros np_mean_zeros)

lemma np_where_all_false: "np_where (replicate m False) = []"
  by (simp add: np_where_def filter_empty_conv)

lemma adjacent_pairs_const:
  "map (\<lambda>(a, b). f a b) (zip (x # replicate m x) (replicate m x)) = replicate m (f x x)"
  by (induction m) auto

lemma np_diff_bool_const: "np_diff_bool (replicate n b) = replicate (n - 1) False"
proof (cases n)
  case 0
  then show ?thesis by (simp add: np_diff_bool_def)
next
  case (Suc m)
  then show ?thesis
    using adjacent_pairs_const [of "\<lambda>a b. b \<noteq> a" b m] by (simp add: np_diff_bool_def)
qed

lemma zero_crossing_rate_zeros: "zero_crossing_rate float_mean (replicate n 0) = 0"
  by (simp add: zero_crossing_rate_def np_mean_zeros np_diff_bool_const np_where_all_false
      Let_def)

lemma np_diff_zeros: "np_diff (replicate n 0) = replicate (n - 1) 0"
proof (cases n)
  case 0
  then show ?thesis by (simp add: np_diff_def)
next
  case (Suc m)
  then show ?thesis
    using adjacent_pairs_const [of "\<lambda>a b. b - a" "0::real" m] by (simp add: np_diff_def)
qed

lemma series_corr_zeros: "series_corr (replicate n 0) (replicate n 0) = NaN"
  by (simp add: series_corr_def covariance_def np_mean_zeros zip_replicate sum_list_zeros
      Let_def)

lemma rfft_abs_zeros: "rfft_abs (replicate n 0) = replicate (n div 2 + 1) 0"
proof -
  have "map (\<lambda>k. cmod (\<Sum>j<n. complex_of_real (replicate n 0 ! j)
                          * cis (- (2 * pi * real k * real j / real n))))
          [0..<n div 2 + 1] = map (\<lambda>k. 0) [0..<n div 2 + 1]"
    by (rule map_cong) simp_all
  then show ?thesis
    by (simp add: rfft_abs_def Let_def map_replicate_const del: upt_Suc)
qed

lemma series_statistics_zeros:
  assumes "0 < n"
  shows "series_statistics float_mean (replicate n 0) prefix =
     [(prefix @ ''_mean'', num 0), (prefix @ ''_std'', num 0), (prefix @ ''_max'', num 0),
      (prefix @ ''_min'', num 0), (prefix @ ''_range'', num 0), (prefix @ ''_ptp'', num 0),
      (prefix @ ''_energy'', num 0), (prefix @ ''_skew'', Num NaN),
      (prefix @ ''_kurtosis'', Num NaN), (prefix @ ''_zcr'', num 0)]"
  using assms
  by (simp add: series_statistics_def Let_def dict_of_def dict_update_def np_mean_zeros
      np_std_zeros np_max_zeros np_min_zeros np_ptp_zeros sum_list_zeros skew_zeros
      kurtosis_zeros zero_crossing_rate_zeros)

lemma jerk_statistics_zeros:
  "jerk_statistics eng (replicate n 0) prefix =
     [(prefix @ ''_mean'', num 0), (prefix @ ''_std'', num 0), (prefix @ ''_max'', num 0)]"
proof (cases "n < 2")
  case True
  then show ?thesis by (simp add: jerk_statistics_def)
next
  case False
  then have "0 < n - 1" by simp
  then show ?thesis using False
    by (simp add: jerk_statistics_def Let_def dict_of_def dict_update_def np_diff_zeros
        np_mean_zeros np_std_zeros np_max_zeros)
qed

lemma fft_features_zeros:
  assumes "sampling_rate eng \<noteq> 0"
  shows "fft_features eng (replicate n 0) prefix =
     Inr [(prefix @ ''_dominant_freq'', num 0), (prefix @ ''_dominant_power'', num 0),
          (prefix @ ''_spectral_energy'', num 0), (prefix @ ''_spectral_entropy'', num 0)]"
proof (cases "n < 2")
  case True
  then show ?thesis by (simp add: fft_features_def)
next
  case False
  have sp: "(replicate (Suc m) (0::real))[0 := 0] = replicate (Suc m) 0" for m
    by simp
  have any: "\<not> np_any (replicate m 0)" for m by (simp add: np_any_def)
  have f0: "rfftfreq n d ! 0 = 0" for d
    by (simp add: rfftfreq_def nth_append del: upt_Suc)
  have en: "sum_list (map (\<lambda>s. s ^ 2) (replicate m (0::real))) = 0" for m
    by (simp add: sum_list_zeros)
  have ent: "sum_list (map (\<lambda>p. p * ln (p + 1 / 10 ^ 12))
               (map (\<lambda>s. s / (sum_list (replicate m (0::real)) + 1 / 10 ^ 12))
                  (replicate m 0))) = 0" for m
    by (simp add: sum_list_zeros)
  have "fft_features eng (replicate n 0) prefix =
     Inr (dict_of
       [(prefix @ ''_dominant_freq'', num 0), (prefix @ ''_dominant_power'', num 0),
        (prefix @ ''_spectral_energy'', num 0), (prefix @ ''_spectral_entropy'', num 0)])"
    using False assms
    unfolding fft_features_def Let_def rfft_abs_zeros
    by (simp only: Suc_eq_plus1 [symmetric] sp any f0 en ent if_False nth_replicate
        lessI zero_less_Suc minus_zero) (simp add: f0)
  then show ?thesis
    by (simp add: dict_of_def dict_update_def)
qed

lemma zeros_replicate:
  assumes "\<forall>x \<in> set xs. x = (0::real)"
  shows "xs = replicate (length xs) 0"
  using assms by (simp add: replicate_length_same)

lemma axis_values_zeros:
  assumes "\<forall>s \<in> set window. reading s axis = 0"
  shows "axis_values window axis = replicate (length window) 0"
proof -
  have "\<forall>x \<in> set (axis_values window axis). x = 0"
    using assms by (auto simp: axis_values_def)
  from zeros_replicate [OF this] show ?thesis by (simp add: axis_values_def)
qed

lemma vector_magnitude_zeros:
  assumes "\<forall>s \<in> set window. \<forall>axis \<in> set sensor_cols. reading s axis = 0"
  shows "vector_magnitude window sensor_cols = replicate (length window) 0"
proof -
  have "sum_list (map (\<lambda>axis. (reading s axis) ^ 2) sensor_cols) = 0" if "s \<in> set window" for s
  proof -
    have "map (\<lambda>axis. (reading s axis) ^ 2) sensor_cols = map (\<lambda>axis. 0) sensor_cols"
      using assms that by (intro map_cong) auto
    then show ?thesis by (simp add: map_replicate_const sum_list_zeros)
  qed
  then have "\<forall>x \<in> set (vector_magnitude window sensor_cols). x = 0"
    by (auto simp: vector_magnitude_def)
  from zeros_replicate [OF this] show ?thesis by (simp add: vector_magnitude_def)
qed

lemma corr_entry_zeros:
  assumes "\<forall>s \<in> set window. reading s a = 0" "\<forall>s \<in> set window. reading s b = 0"
  shows "corr_entry window (a, b) = (''corr_'' @ a @ ''_'' @ b, num 0)"
  by (simp add: corr_entry_def axis_values_zeros [OF assms(1)] axis_values_zeros [OF assms(2)]
      series_corr_zeros)

lemma map_of_dict_update: "map_of (dict_update d other) = map_of d ++ map_of (rev other)"
  unfolding dict_update_def
proof (induction other arbitrary: d)
  case Nil
  then show ?case by simp
next
  case (Cons kv other)
  obtain k v where kv: "kv = (k, v)" by (cases kv)
  have "map_of (fold (\<lambda>(k, v). AList.update k v) other (AList.update k v d))
        = map_of (AList.update k v d) ++ map_of (rev other)"
    using Cons.IH .
  also have "\<dots> = (map_of d ++ map_of [(k, v)]) ++ map_of (rev other)"
    by (simp add: update_conv')
  also have "\<dots> = map_of d ++ map_of (rev other @ [(k, v)])"
    by (simp only: map_of_append map_add_assoc)
  finally show ?case by (simp add: kv)
qed

lemma fold_dict_update_map_of:
  "map_of (fold (\<lambda>x f. dict_update f x) ds d) = fold (\<lambda>x m. m ++ map_of (rev x)) ds (map_of d)"
  by (induction ds arbitrary: d) (simp_all add: map_of_dict_update)

lemma severity_features_lookup:
  assumes "k \<noteq> ''severity_max''" "k \<noteq> ''severity_mean''"
  shows "map_of (severity_features wdf window severity_col features) k = map_of features k"
  using assms by (simp add: severity_features_def Let_def update_conv' split: option.splits)

lemma correlation_features_zeros:
  assumes "\<forall>s \<in> set window. reading s ''accel_x'' = 0 \<and> reading s ''accel_y'' = 0
             \<and> reading s ''accel_z'' = 0"
  shows "correlation_features window [''accel_x'', ''accel_y'', ''accel_z''] =
           [(''corr_accel_x_accel_y'', num 0), (''corr_accel_x_accel_z'', num 0),
            (''corr_accel_y_accel_z'', num 0)]"
  using assms
  by (simp add: correlation_features_def corr_entry_zeros dict_of_def dict_update_def)

lemma axis_dicts:
  "map snd (dict_of [(''accel_x'', a), (''accel_y'', b), (''accel_z'', c)]) = [a, b, c]"
  "map snd (AList.update ''magnitude'' m
     (dict_of [(''accel_x'', a), (''accel_y'', b), (''accel_z'', c)])) = [a, b, c, m]"
  "map snd (AList.update ''magnitude_fft'' m
     (dict_of [(''accel_x'', a), (''accel_y'', b), (''accel_z'', c)])) = [a, b, c, m]"
  by (simp_all add: dict_of_def dict_update_def)

lemma sequence_three:
  "sequence_results [Inr a, Inr b, Inr c] = Inr [a, b, c]"
  by simp

lemma compute_window_features_zeros:
  assumes z: "\<forall>s \<in> set window. reading s ''accel_x'' = 0 \<and> reading s ''accel_y'' = 0
             \<and> reading s ''accel_z'' = 0"
    and ne: "window \<noteq> []" and R: "sampling_rate eng \<noteq> 0"
  shows "\<exists>features. compute_window_features float_mean eng wdf window
            [''accel_x'', ''accel_y'', ''accel_z''] severity_col = Inr features \<and>
           (\<forall>k \<in> set [''magnitude_mean'',
              ''magnitude_std'',
              ''magnitude_max'',
              ''magnitude_min'',
              ''magnitude_range'',
              ''magnitude_ptp'',
              ''magnitude_energy'',
              ''magnitude_zcr'',
              ''magnitude_jerk_mean'',
              ''magnitude_jerk_std'',
              ''magnitude_jerk_max'',
              ''magnitude_fft_dominant_freq'',
              ''magnitude_fft_dominant_power'',
              ''magnitude_fft_spectral_energy'',
              ''magnitude_fft_spectral_entropy'',
              ''corr_accel_x_accel_y'',
              ''corr_accel_x_accel_z'',
              ''corr_accel_y_accel_z'',
              ''accel_x_fft_spectral_entropy'',
              ''accel_y_fft_spectral_entropy'',
              ''accel_z_fft_spectral_entropy''].
              map_of features k = Some (num 0)) \<and>
           map_of features ''magnitude_skew'' = Some (Num NaN) \<and>
           map_of features ''magnitude_kurtosis'' = Some (Num NaN)"
proof -
  have ax: "axis_values window ''accel_x'' = replicate (length window) 0"
    "axis_values window ''accel_y'' = replicate (length window) 0"
    "axis_values window ''accel_z'' = replicate (length window) 0"
    using z by (simp_all add: axis_values_zeros)
  have mg: "vector_magnitude window [''accel_x'', ''accel_y'', ''accel_z'']
            = replicate (length window) 0"
    using z by (intro vector_magnitude_zeros) auto
  have n: "0 < length window" using ne by simp
  show ?thesis
    by (simp add: compute_window_features_def Let_def ax mg axis_statistics_def
        series_statistics_zeros [OF n] jerk_statistics_zeros fft_features_zeros [OF R]
        correlation_features_zeros [OF z] axis_dicts
        fold_dict_update_map_of map_of_dict_update update_conv' severity_features_lookup
        map_add_def)
qed

lemma window_row_zeros:
  assumes wr: "window_row float_mean eng wdf [''accel_x'', ''accel_y'', ''accel_z''] severity_col v
                 (start_idx, window) = Inr w"
    and z: "\<forall>s \<in> set window. reading s ''accel_x'' = 0 \<and> reading s ''accel_y'' = 0
             \<and> reading s ''accel_z'' = 0"
    and R: "sampling_rate eng \<noteq> 0"
  shows "\<forall>k \<in> set [''magnitude_mean'',
              ''magnitude_std'',
              ''magnitude_max'',
              ''magnitude_min'',
              ''magnitude_range'',
              ''magnitude_ptp'',
              ''magnitude_energy'',
              ''magnitude_skew'',
              ''magnitude_kurtosis'',
              ''magnitude_zcr'',
              ''magnitude_jerk_mean'',
              ''magnitude_jerk_std'',
              ''magnitude_jerk_max'',
              ''magnitude_fft_dominant_freq'',
              ''magnitude_fft_dominant_power'',
              ''magnitude_fft_spectral_energy'',
              ''magnitude_fft_spectral_entropy'',
              ''corr_accel_x_accel_y'',
              ''corr_accel_x_accel_z'',
              ''corr_accel_y_accel_z'',
              ''accel_x_fft_spectral_entropy'',
              ''accel_y_fft_spectral_entropy'',
              ''accel_z_fft_spectral_entropy''].
           map_of w k = Some (num 0) \<or> map_of w k = Some (Num NaN)"
proof -
  have ne: "window \<noteq> []" using window_row_label [OF wr] by simp
  from compute_window_features_zeros [OF z ne R, of float_mean wdf severity_col]
  obtain features where
    f: "compute_window_features float_mean eng wdf window [''accel_x'', ''accel_y'', ''accel_z'']
          severity_col = Inr features"
    and l: "\<forall>k \<in> set [''magnitude_mean'',
              ''magnitude_std'',
              ''magnitude_max'',
              ''magnitude_min'',
              ''magnitude_range'',
              ''magnitude_ptp'',
              ''magnitude_energy'',
              ''magnitude_zcr'',
              ''magnitude_jerk_mean'',
              ''magnitude_jerk_std'',
              ''magnitude_jerk_max'',
              ''magnitude_fft_dominant_freq'',
              ''magnitude_fft_dominant_power'',
              ''magnitude_fft_spectral_energy'',
              ''magnitude_fft_spectral_entropy'',
              ''corr_accel_x_accel_y'',
              ''corr_accel_x_accel_z'',
              ''corr_accel_y_accel_z'',
              ''accel_x_fft_spectral_entropy'',
              ''accel_y_fft_spectral_entropy'',
              ''accel_z_fft_spectral_entropy''].
              map_of features k = Some (num 0)"
      "map_of features ''magnitude_skew'' = Some (Num NaN)"
      "map_of features ''magnitude_kurtosis'' = Some (Num NaN)"
    by blast
  have w: "w = AList.update ''positive_ratio'' (num (positive_ratio (map label window)))
        (AList.update ''label'' (num (real_of_int (window_label (map label window))))
          (AList.update ''window_end_ts'' (Num (timestamp (last window)))
            (AList.update ''window_start_ts'' (Num (timestamp (hd window)))
              (AList.update ''window_index'' (num (real_of_int (window_index eng start_idx)))
                (AList.update ''vehicle_id'' (Str v) features)))))"
    using wr f ne by (simp add: window_row_def Let_def split: list.splits)
  show ?thesis
    using l unfolding w by (simp add: update_conv')
qed

text \<open>
  C7. When every sample reads 0 on the three axes, the sampling rate is not 0, window and
  hop are positive, the required columns are present and some vehicle has at least
  \<open>window_size\<close> samples, \<^verbatim>\<open>transform\<close> raises nothing and returns a table with at least
  one row; in every row all seventeen magnitude features are 0.0 (skewness and kurtosis,
  NaN for a series without variance, through the clean-up), the three cross-axis
  correlations are 0.0 and the spectral entropy of every axis and of the magnitude is 0.0.
\<close>

theorem transform_all_zero:
  assumes W: "0 < window_size eng" and S: "0 < step_size eng" and R: "sampling_rate eng \<noteq> 0"
    and c: "set [''accel_x'', ''accel_y'', ''accel_z''] \<subseteq> set (columns df)"
      "label_col eng \<in> set (columns df)"
    and v: "window_size eng \<le> int (length (filter (\<lambda>s. vehicle_id s = v)
              (samples (working_frame eng df timestamp_col vehicle_id_col))))"
    and z: "\<forall>s \<in> set (samples df). reading s ''accel_x'' = 0 \<and> reading s ''accel_y'' = 0
             \<and> reading s ''accel_z'' = 0"
  shows "\<exists>tbl. transform float_mean eng df [''accel_x'', ''accel_y'', ''accel_z''] timestamp_col
             vehicle_id_col severity_col = Inr tbl \<and>
           rows tbl \<noteq> [] \<and>
           (\<forall>row \<in> set (rows tbl).
              (\<forall>k \<in> set [''magnitude_mean'',
                         ''magnitude_std'',
                         ''magnitude_max'',
                         ''magnitude_min'',
                         ''magnitude_range'',
                         ''magnitude_ptp'',
                         ''magnitude_energy'',
                         ''magnitude_skew'',
                         ''magnitude_kurtosis'',
                         ''magnitude_zcr'',
                         ''magnitude_jerk_mean'',
                         ''magnitude_jerk_std'',
                         ''magnitude_jerk_max'',
                         ''magnitude_fft_dominant_freq'',
                         ''magnitude_fft_dominant_power'',
                         ''magnitude_fft_spectral_energy'',
                         ''magnitude_fft_spectral_entropy''].
                 cell_at row k = num 0) \<and>
              (\<forall>k \<in> set [''corr_accel_x_accel_y'',
                         ''corr_accel_x_accel_z'',
                         ''corr_accel_y_accel_z''].
                 cell_at row k = num 0) \<and>
              (\<forall>k \<in> set [''accel_x_fft_spectral_entropy'',
                         ''accel_y_fft_spectral_entropy'',
                         ''accel_z_fft_spectral_entropy'',
                         ''magnitude_fft_spectral_entropy''].
                 cell_at row k = num 0))"
proof -
  obtain tbl where t: "transform float_mean eng df [''accel_x'', ''accel_y'', ''accel_z''] timestamp_col
             vehicle_id_col severity_col = Inr tbl"
    using transform_ok [OF W S R c v] by blast
  obtain ws where f0: "finalise ws = Inr tbl" using transform_origin [OF t] by blast
  have nonempty: "rows tbl \<noteq> []"
    using finalise_rows(3) [OF f0] finalise_length [OF f0] by auto
  have each: "\<forall>k \<in> set [''magnitude_mean'',
              ''magnitude_std'',
              ''magnitude_max'',
              ''magnitude_min'',
              ''magnitude_range'',
              ''magnitude_ptp'',
              ''magnitude_energy'',
              ''magnitude_skew'',
              ''magnitude_kurtosis'',
              ''magnitude_zcr'',
              ''magnitude_jerk_mean'',
              ''magnitude_jerk_std'',
              ''magnitude_jerk_max'',
              ''magnitude_fft_dominant_freq'',
              ''magnitude_fft_dominant_power'',
              ''magnitude_fft_spectral_energy'',
              ''magnitude_fft_spectral_entropy'',
              ''corr_accel_x_accel_y'',
              ''corr_accel_x_accel_z'',
              ''corr_accel_y_accel_z'',
              ''accel_x_fft_spectral_entropy'',
              ''accel_y_fft_spectral_entropy'',
              ''accel_z_fft_spectral_entropy''].
           cell_at row k = num 0" if r: "row \<in> set (rows tbl)" for row
  proof -
    from transform_rows [OF t r] obtain windows i vehicle start_idx window where
      f: "finalise windows = Inr tbl" and i: "i < length windows" "rows tbl ! i = row"
      and wr: "window_row float_mean eng (working_frame eng df timestamp_col vehicle_id_col)
               [''accel_x'', ''accel_y'', ''accel_z''] severity_col vehicle
               (start_idx, window) = Inr (windows ! i)"
      and sub: "set window \<subseteq> set (samples (working_frame eng df timestamp_col vehicle_id_col))"
      by blast
    have zw: "\<forall>s \<in> set window. reading s ''accel_x'' = 0 \<and> reading s ''accel_y'' = 0
             \<and> reading s ''accel_z'' = 0"
    proof
      fix s assume "s \<in> set window"
      then obtain s0 where "s0 \<in> set (samples df)" "reading s = reading s0"
        using sub working_frame_samples by (metis subsetD)
      then show "reading s ''accel_x'' = 0 \<and> reading s ''accel_y'' = 0
             \<and> reading s ''accel_z'' = 0"
        using z by simp
    qed
    have win: "windows ! i \<in> set windows" using i(1) by simp
    have one: "cell_at row k = num 0"
      if k: "map_of (windows ! i) k = Some (num 0) \<or> map_of (windows ! i) k = Some (Num NaN)"
        and kn: "k \<notin> transform_non_feature_cols" for k
    proof -
      have kc: "k \<in> set (cols tbl)" using key_in_cols [OF f win] k by blast
      have "cell_at (windows ! i) k = num 0 \<or> cell_at (windows ! i) k = Num NaN"
        using k by (auto simp: cell_at_def)
      then have "fillna_zero (replace_inf (cell_at (windows ! i) k)) = num 0"
        by (auto simp: cleaned_cell nan_or_inf_def num_def)
      then show ?thesis using finalise_cell [OF f i(1) kc] kn i(2) by simp
    qed
    have nf: "\<forall>k \<in> set [''magnitude_mean'',
              ''magnitude_std'',
              ''magnitude_max'',
              ''magnitude_min'',
              ''magnitude_range'',
              ''magnitude_ptp'',
              ''magnitude_energy'',
              ''magnitude_skew'',
              ''magnitude_kurtosis'',
              ''magnitude_zcr'',
              ''magnitude_jerk_mean'',
              ''magnitude_jerk_std'',
              ''magnitude_jerk_max'',
              ''magnitude_fft_dominant_freq'',
              ''magnitude_fft_dominant_power'',
              ''magnitude_fft_spectral_energy'',
              ''magnitude_fft_spectral_entropy'',
              ''corr_accel_x_accel_y'',
              ''corr_accel_x_accel_z'',
              ''corr_accel_y_accel_z'',
              ''accel_x_fft_spectral_entropy'',
              ''accel_y_fft_spectral_entropy'',
              ''accel_z_fft_spectral_entropy''].
           k \<notin> transform_non_feature_cols"
      by (simp add: transform_non_feature_cols_def)
    show ?thesis
      using window_row_zeros [OF wr zw R] nf one by (simp only: Ball_def) blast
  qed
  have "(\<forall>row \<in> set (rows tbl).
              (\<forall>k \<in> set [''magnitude_mean'',
                         ''magnitude_std'',
                         ''magnitude_max'',
                         ''magnitude_min'',
                         ''magnitude_range'',
                         ''magnitude_ptp'',
                         ''magnitude_energy'',
                         ''magnitude_skew'',
                         ''magnitude_kurtosis'',
                         ''magnitude_zcr'',
                         ''magnitude_jerk_mean'',
                         ''magnitude_jerk_std'',
                         ''magnitude_jerk_max'',
                         ''magnitude_fft_dominant_freq'',
                         ''magnitude_fft_dominant_power'',
                         ''magnitude_fft_spectral_energy'',
                         ''magnitude_fft_spectral_entropy''].
                 cell_at row k = num 0) \<and>
              (\<forall>k \<in> set [''corr_accel_x_accel_y'',
                         ''corr_accel_x_accel_z'',
                         ''corr_accel_y_accel_z''].
                 cell_at row k = num 0) \<and>
              (\<forall>k \<in> set [''accel_x_fft_spectral_entropy'',
                         ''accel_y_fft_spectral_entropy'',
                         ''accel_z_fft_spectral_entropy'',
                         ''magnitude_fft_spectral_entropy''].
                 cell_at row k = num 0))"
    using each by simp
  with t nonempty show ?thesis by blast
qed

theorem transform_all_zero_witness:
  "\<exists>tbl. transform np_mean \<lparr>sampling_rate = 50, window_size = 2, step_size = 1, label_col = ''accident''\<rparr>
      \<lparr>columns = [''accel_x'', ''accel_y'', ''accel_z'', ''accident'', ''timestamp'', ''vehicle_id''],
        samples = [\<lparr>vehicle_id = ''v1'', timestamp = Fin 0, reading = (\<lambda>axis. 0), label = 0, severity = SevMissing\<rparr>,
          \<lparr>vehicle_id = ''v1'', timestamp = Fin 1, reading = (\<lambda>axis. 0), label = 1, severity = SevMissing\<rparr>,
          \<lparr>vehicle_id = ''v1'', timestamp = Fin 2, reading = (\<lambda>axis. 0), label = 0, severity = SevMissing\<rparr>]\<rparr>
      [''accel_x'', ''accel_y'', ''accel_z''] ''timestamp'' ''vehicle_id''
      (Some ''event_severity'') = Inr tbl \<and>
    rows tbl \<noteq> [] \<and>
    (\<forall>row \<in> set (rows tbl).
              (\<forall>k \<in> set [''magnitude_mean'',
                         ''magnitude_std'',
                         ''magnitude_max'',
                         ''magnitude_min'',
                         ''magnitude_range'',
                         ''magnitude_ptp'',
                         ''magnitude_energy'',
                         ''magnitude_skew'',
                         ''magnitude_kurtosis'',
                         ''magnitude_zcr'',
                         ''magnitude_jerk_mean'',
                         ''magnitude_jerk_std'',
                         ''magnitude_jerk_max'',
                         ''magnitude_fft_dominant_freq'',
                         ''magnitude_fft_dominant_power'',
                         ''magnitude_fft_spectral_energy'',
                         ''magnitude_fft_spectral_entropy''].
                 cell_at row k = num 0) \<and>
              (\<forall>k \<in> set [''corr_accel_x_accel_y'',
                         ''corr_accel_x_accel_z'',
                         ''corr_accel_y_accel_z''].
                 cell_at row k = num 0) \<and>
              (\<forall>k \<in> set [''accel_x_fft_spectral_entropy'',
                         ''accel_y_fft_spectral_entropy'',
                         ''accel_z_fft_spectral_entropy'',
                         ''magnitude_fft_spectral_entropy''].
                 cell_at row k = num 0))"
  by (rule transform_all_zero [where v = "''v1''"]) (simp_all add: working_frame_count)

section \<open>Zero-crossing rate\<close>










end
